theory Spec2Isabelle
  imports Main
begin

section \<open>The PRTG client (src/app/prtg/client.py)\<close>

text \<open>
  The client mirrors the sensor tree of a PRTG server (probes, groups, devices, sensors,
  channels) in Python objects and talks to the server with HTTP GET requests.

  What lies outside the repository is a parameter of the model:
  \<^item> \<open>requests.get\<close> is a function from the URL (and the \<open>verify\<close> flag) to a response;
  \<^item> \<open>BeautifulSoup(text, "lxml")\<close> is a function from the body to a parsed document;
  \<^item> \<open>csv.reader\<close> and \<open>datetime.strptime\<close> are functions given to the one method
    that uses them.
  Exceptions are values of the type \<open>error\<close>; a method that can raise returns a sum, and
  where a claim speaks of the object after the exception the object is returned as well.
\<close>

subsection \<open>Exceptions and Python values\<close>

datatype error =
    AuthenticationError string
  | ResourceNotFound string
  | AttributeError
  | ValueError
  | IndexError
  | UnboundLocalError
  | KeyError
  | EOFError

text \<open>
  The values an attribute of an object holds: a string (the text of a tag, a property), an
  integer (\<open>self.id = rootid\<close>, with \<open>rootid = 0\<close>), or the attribute dictionary of a
  tag (\<open>soup.attrs\<close>). Python's \<open>None\<close> is \<open>None\<close> of the option type.
\<close>

datatype pyval = PyStr string | PyInt int | PyDict "(string \<times> string) list"

fun digit_char :: "nat \<Rightarrow> char" where
  "digit_char n = char_of (48 + n)"

fun str_nat :: "nat \<Rightarrow> nat \<Rightarrow> string" where
  "str_nat 0 n = []"
| "str_nat (Suc k) n = (if n < 10 then [digit_char n] else str_nat k (n div 10) @ [digit_char (n mod 10)])"

definition str_int :: "int \<Rightarrow> string" where
  "str_int i = (if i < 0 then CHR ''-'' # str_nat (Suc (nat (- i))) (nat (- i))
                else str_nat (Suc (nat i)) (nat i))"

fun join :: "string \<Rightarrow> string list \<Rightarrow> string" where
  "join sep [] = []"
| "join sep [x] = x"
| "join sep (x # y # ys) = x @ sep @ join sep (y # ys)"

text \<open>
  \<open>str(v)\<close>, as \<open>str.format\<close> applies it. The dictionary is printed as Python prints a
  dictionary of plain strings (no quote or backslash in them).
\<close>

fun py_str :: "pyval option \<Rightarrow> string" where
  "py_str None = ''None''"
| "py_str (Some (PyStr s)) = s"
| "py_str (Some (PyInt i)) = str_int i"
| "py_str (Some (PyDict d)) =
     ''{'' @ join '', '' (map (\<lambda>(k, v). [CHR 0x27] @ k @ [CHR 0x27] @ '': '' @ [CHR 0x27] @ v @ [CHR 0x27]) d) @ ''}''"

subsection \<open>The parsed document (bs4)\<close>

text \<open>
  A parsed document is a tree of tags and strings. \<open>name\<close> is \<open>None\<close> on a string;
  \<open>.string\<close> is the only string below a tag, if there is exactly one path to it;
  \<open>find\<close> and \<open>find_all\<close> search the descendants in document order; \<open>.text\<close>
  joins all strings below.

  The document is a value: an assignment \<open>child.string = ""\<close> of the source, which only
  serves the read that follows it, is modelled by that read giving the empty string
  (\<open>string_or_empty\<close>).
\<close>

datatype soup = Tag string "(string \<times> string) list" "soup list" | NavigableString string

fun soup_name :: "soup \<Rightarrow> string option" where
  "soup_name (Tag n a cs) = Some n"
| "soup_name (NavigableString s) = None"

fun soup_attrs :: "soup \<Rightarrow> (string \<times> string) list" where
  "soup_attrs (Tag n a cs) = a"
| "soup_attrs (NavigableString s) = []"

fun children :: "soup \<Rightarrow> soup list" where
  "children (Tag n a cs) = cs"
| "children (NavigableString s) = []"

fun soup_string :: "soup \<Rightarrow> string option" where
  "soup_string (NavigableString s) = Some s"
| "soup_string (Tag n a cs) = (case cs of [c] \<Rightarrow> soup_string c | _ \<Rightarrow> None)"

definition string_or_empty :: "soup \<Rightarrow> string" where
  "string_or_empty c = (case soup_string c of None \<Rightarrow> [] | Some s \<Rightarrow> s)"

fun descendants :: "soup \<Rightarrow> soup list" where
  "descendants (NavigableString s) = []"
| "descendants (Tag n a cs) = concat (map (\<lambda>c. c # descendants c) cs)"

definition find_all :: "soup \<Rightarrow> string \<Rightarrow> soup list" where
  "find_all s nm = filter (\<lambda>t. soup_name t = Some nm) (descendants s)"

definition soup_find :: "soup \<Rightarrow> string \<Rightarrow> soup option" where
  "soup_find s nm = (case find_all s nm of [] \<Rightarrow> None | t # _ \<Rightarrow> Some t)"

fun get_text :: "soup \<Rightarrow> string" where
  "get_text (NavigableString s) = s"
| "get_text (Tag n a cs) = concat (map get_text cs)"

text \<open>
  \<open>child.find(nm).string\<close>: an AttributeError when there is no such tag (\<open>find\<close> gives
  \<open>None\<close>), else the tag's \<open>.string\<close>, as a Python value.
\<close>

definition find_string :: "soup \<Rightarrow> string \<Rightarrow> error + pyval option" where
  "find_string c nm = (case soup_find c nm of None \<Rightarrow> Inl AttributeError
                      | Some t \<Rightarrow> Inr (map_option PyStr (soup_string t)))"

subsection \<open>ConnectionMethods\<close>

record response =
  status_code :: int
  body :: string

record env =
  requests_get :: "string \<Rightarrow> bool \<Rightarrow> response"
  BeautifulSoup :: "string \<Rightarrow> soup"

type_synonym confdata = "string \<times> string \<times> string \<times> string \<times> string \<times> bool"

record connectionmethods =
  verify :: bool
  confdata :: confdata
  base_url :: string
  base_url_no_api :: string
  url_auth :: string

text \<open>\<open>unpack_config\<close>: confdata is (host, port, user, passhash, protocol, verify).\<close>

fun unpack_config :: "confdata \<Rightarrow> connectionmethods" where
  "unpack_config (host, port, user, passhash, protocol, vrfy) =
     \<lparr> verify = vrfy,
       confdata = (host, port, user, passhash, protocol, vrfy),
       base_url = protocol @ ''://'' @ host @ '':'' @ port @ ''/api/'',
       base_url_no_api = protocol @ ''://'' @ host @ '':'' @ port @ ''/'',
       url_auth = ''username='' @ user @ ''&passhash='' @ passhash \<rparr>"

definition request_url :: "'a connectionmethods_scheme \<Rightarrow> string \<Rightarrow> bool \<Rightarrow> string" where
  "request_url c url_string api =
     (if api then base_url c @ url_string @ ''&'' @ url_auth c
      else base_url_no_api c @ url_string @ ''&'' @ url_auth c)"

text \<open>
  \<open>get_request\<close>: the response on 200, an exception on 401 and on 404, and on any other
  status the end of the function is reached, which returns \<open>None\<close>.
\<close>

definition get_request :: "env \<Rightarrow> 'a connectionmethods_scheme \<Rightarrow> string \<Rightarrow> bool \<Rightarrow> error + response option" where
  "get_request e c url_string api =
     (let url = request_url c url_string api;
          req = requests_get e url (verify c)
      in if status_code req = 200 then Inr (Some req)
         else if status_code req = 401 then
           Inl (AuthenticationError ''PRTG authentication failed. Check credentials in config file'')
         else if status_code req = 404 then
           Inl (ResourceNotFound (''No resource at URL used: '' @ url))
         else Inr None)"

text \<open>\<open>req.text\<close> of what \<open>get_request\<close> returned: an AttributeError on \<open>None\<close>.\<close>

definition response_text :: "response option \<Rightarrow> error + string" where
  "response_text req = (case req of None \<Rightarrow> Inl AttributeError | Some r \<Rightarrow> Inr (body r))"

subsection \<open>BaseConfig\<close>

text \<open>
  An object is its identity \<open>oid\<close> (a fresh number, taken from a counter when the object
  is constructed) and its attribute dictionary \<open>attrs\<close>: the attributes that
  \<open>BaseConfig.__init__\<close> sets to \<open>None\<close> (id, objid, sensorid, type, name, status,
  status_raw, active) and every attribute that \<open>setattr\<close> adds from a tag or a property.
  The attributes that hold the connection data, the child collections and the methods are
  fields and functions of their own: a document whose tag names are those names is outside
  the model.

  Every class but BaseConfig runs \<open>PRTGApi.__init__\<close>, which after
  \<open>BaseConfig.__init__\<close> sets \<open>self.id = rootid\<close>: the integer 0 for every object
  that is not the root client.
\<close>

record baseconfig = connectionmethods +
  oid :: nat
  attrs :: "string \<rightharpoonup> pyval"

definition new_base :: "confdata \<Rightarrow> nat \<Rightarrow> (string \<rightharpoonup> pyval) \<Rightarrow> baseconfig" where
  "new_base conf n a =
     (let c = unpack_config conf
      in \<lparr> verify = verify c, confdata = confdata c, base_url = base_url c,
           base_url_no_api = base_url_no_api c, url_auth = url_auth c, oid = n, attrs = a \<rparr>)"

definition init_attrs :: "string \<rightharpoonup> pyval" where
  "init_attrs = Map.empty(''id'' \<mapsto> PyInt 0)"

text \<open>
  The loop \<open>for child in soup.children: ... setattr(self, child.name, child.string)\<close>
  over children that are all scalar (Sensor, Channel).
\<close>

fun set_scalars :: "soup list \<Rightarrow> (string \<rightharpoonup> pyval) \<Rightarrow> (string \<rightharpoonup> pyval)" where
  "set_scalars [] m = m"
| "set_scalars (NavigableString s # cs) m = set_scalars cs m"
| "set_scalars (Tag nm a ccs # cs) m = set_scalars cs (m(nm \<mapsto> PyStr (string_or_empty (Tag nm a ccs))))"

text \<open>\<open>response.upper()\<close>, on ASCII letters.\<close>

definition upper_char :: "char \<Rightarrow> char" where
  "upper_char c = (if (97::nat) \<le> of_char c \<and> (of_char c :: nat) \<le> 122 then char_of ((of_char c :: nat) - 32) else c)"

definition upper :: "string \<Rightarrow> string" where
  "upper s = map upper_char s"

text \<open>
  The prompt loop of \<open>delete\<close>: lines are read from the standard input until one is Y or
  N in any case (an empty line counts as N); \<open>input\<close> raises EOFError at the end of the
  input.
\<close>

fun ask :: "string list \<Rightarrow> (error + string) \<times> string list" where
  "ask [] = (Inl EOFError, [])"
| "ask (l # ls) =
     (let response = (if l = [] then ''N'' else l)
      in if upper response \<in> set [''Y'', ''N''] then (Inr response, ls) else ask ls)"

text \<open>
  \<open>BaseConfig.delete\<close>. The result is what the call returns or raises, the URLs it
  requested, and the input left.
\<close>

definition delete :: "env \<Rightarrow> string list \<Rightarrow> 'a baseconfig_scheme \<Rightarrow> bool
    \<Rightarrow> (error + string option) \<times> string list \<times> string list" where
  "delete e stdin self confirm =
     (if attrs self ''type'' = Some (PyStr ''Root'') then
        (Inr (Some ''You cannot delete the root object.''), [], stdin)
      else
        (let delete_url = ''deleteobject.htm?id='' @ py_str (attrs self ''id'') @ ''&approve=1''
         in if confirm then
              (case ask stdin of
                 (Inl err, rest) \<Rightarrow> (Inl err, [], rest)
               | (Inr response, rest) \<Rightarrow>
                   if upper response = ''Y'' then
                     (case get_request e self delete_url True of
                        Inl err \<Rightarrow> (Inl err, [request_url self delete_url True], rest)
                      | Inr _ \<Rightarrow> (Inr None, [request_url self delete_url True], rest))
                   else (Inr None, [], rest))
            else
              (case get_request e self delete_url True of
                 Inl err \<Rightarrow> (Inl err, [request_url self delete_url True], stdin)
               | Inr _ \<Rightarrow> (Inr None, [request_url self delete_url True], stdin))))"

text \<open>
  \<open>set_property\<close>, \<open>get_property\<close>, \<open>set_interval\<close>, \<open>pause\<close>: the object after the
  call, and what the call returns or raises.
\<close>

definition setprop_url :: "'a baseconfig_scheme \<Rightarrow> string \<Rightarrow> pyval option \<Rightarrow> string" where
  "setprop_url self nm v =
     (if attrs self ''type'' \<noteq> Some (PyStr ''Channel'') then
        ''setobjectproperty.htm?id='' @ py_str (attrs self ''id'')
          @ ''&name='' @ nm @ ''&value='' @ py_str v
      else
        ''setobjectproperty.htm?id='' @ py_str (attrs self ''sensorid'') @ ''&subid=''
          @ py_str (attrs self ''objid'') @ ''&name='' @ nm @ ''&value='' @ py_str v)"

definition set_property :: "env \<Rightarrow> 'a baseconfig_scheme \<Rightarrow> string \<Rightarrow> pyval option
    \<Rightarrow> 'a baseconfig_scheme \<times> (error + unit)" where
  "set_property e self nm v =
     (case get_request e self (setprop_url self nm v) True of
        Inl err \<Rightarrow> (self, Inl err)
      | Inr _ \<Rightarrow> (self\<lparr>attrs := (attrs self)(''name'' := v)\<rparr>, Inr ()))"

definition set_interval :: "env \<Rightarrow> 'a baseconfig_scheme \<Rightarrow> pyval option
    \<Rightarrow> 'a baseconfig_scheme \<times> (error + unit)" where
  "set_interval e self interval = set_property e self ''interval'' interval"

definition getprop_url :: "'a baseconfig_scheme \<Rightarrow> string \<Rightarrow> string" where
  "getprop_url self nm =
     (if attrs self ''type'' \<noteq> Some (PyStr ''Channel'') then
        ''getobjectproperty.htm?id='' @ py_str (attrs self ''id'') @ ''&name='' @ nm @ ''&show=text''
      else
        ''getobjectproperty.htm?id='' @ py_str (attrs self ''sensorid'') @ ''&subid=''
          @ py_str (attrs self ''objid'') @ ''&name='' @ nm)"

definition get_property :: "env \<Rightarrow> 'a baseconfig_scheme \<Rightarrow> string
    \<Rightarrow> 'a baseconfig_scheme \<times> (error + string)" where
  "get_property e self nm =
     (case get_request e self (getprop_url self nm) True of
        Inl err \<Rightarrow> (self, Inl err)
      | Inr req \<Rightarrow>
          (case response_text req of
             Inl err \<Rightarrow> (self, Inl err)
           | Inr txt \<Rightarrow>
               (case soup_find (BeautifulSoup e txt) ''result'' of
                  None \<Rightarrow> (self, Inl AttributeError)
                | Some result \<Rightarrow>
                    if get_text result \<noteq> ''(Property not found)'' then
                      (self\<lparr>attrs := (attrs self)(nm \<mapsto> PyStr (get_text result))\<rparr>,
                       Inr (get_text result))
                    else (self, Inl (ResourceNotFound (''No object property of name: '' @ nm))))))"

text \<open>
  \<open>get_tree\<close>: \<open>treesoup.sensortree.nodes\<close> is an AttributeError when there is no
  \<open>sensortree\<close> tag, and ResourceNotFound when that tag has no \<open>nodes\<close> tag below.
\<close>

definition tree_nodes :: "soup \<Rightarrow> error + soup option" where
  "tree_nodes treesoup =
     (case soup_find treesoup ''sensortree'' of
        None \<Rightarrow> Inl AttributeError
      | Some st \<Rightarrow> Inr (soup_find st ''nodes''))"

definition get_tree :: "env \<Rightarrow> 'a baseconfig_scheme \<Rightarrow> pyval option \<Rightarrow> error + soup" where
  "get_tree e self root =
     (case get_request e self (''table.xml?content=sensortree&output=xml&id='' @ py_str root) True of
        Inl err \<Rightarrow> Inl err
      | Inr req \<Rightarrow>
          (case response_text req of
             Inl err \<Rightarrow> Inl err
           | Inr raw_data \<Rightarrow>
               (let treesoup = BeautifulSoup e raw_data
                in case tree_nodes treesoup of
                     Inl err \<Rightarrow> Inl err
                   | Inr (Some nodes) \<Rightarrow> Inr treesoup
                   | Inr None \<Rightarrow> Inl (ResourceNotFound (''No objects at ID: '' @ py_str root)))))"

definition pause_url :: "'a baseconfig_scheme \<Rightarrow> int \<Rightarrow> string \<Rightarrow> string" where
  "pause_url self duration message =
     (if duration > 0 then
        ''pauseobjectfor.htm?id='' @ py_str (attrs self ''id'') @ ''&duration='' @ str_int duration
      else ''pause.htm?id='' @ py_str (attrs self ''id'') @ ''&action=0'')
     @ (if message \<noteq> [] then ''&pausemsg='' @ message else [])"

definition pause :: "env \<Rightarrow> 'a baseconfig_scheme \<Rightarrow> int \<Rightarrow> string
    \<Rightarrow> 'a baseconfig_scheme \<times> (error + unit)" where
  "pause e self duration message =
     (case get_request e self (pause_url self duration message) True of
        Inl err \<Rightarrow> (self, Inl err)
      | Inr _ \<Rightarrow>
          (self\<lparr>attrs := (attrs self)(''status'' \<mapsto> PyStr ''Paused'', ''active'' \<mapsto> PyStr ''false'',
                                      ''status_raw'' \<mapsto> PyStr ''7'')\<rparr>, Inr ()))"

subsection \<open>Channel\<close>

text \<open>
  \<open>Channel.__init__\<close> stores \<open>sensorid\<close> before it runs \<open>BaseConfig.__init__\<close>, which
  sets it to \<open>None\<close> again. \<open>initialize\<close> copies the tags of the item, sets
  \<open>id = objid\<close>, and reads \<open>lastvalue\<close>: when that is digits and dots only, the
  conversions end in \<open>self.lastvalue.split(" ")[1]\<close>, an IndexError for a string without
  a blank (a ValueError before it when \<open>float\<close> refuses two dots; numbers are taken short
  enough for \<open>int\<close> and \<open>float\<close>).
\<close>

type_synonym channel = baseconfig

definition isdigit :: "string \<Rightarrow> bool" where
  "isdigit s = (s \<noteq> [] \<and> list_all (\<lambda>c. (48::nat) \<le> of_char c \<and> (of_char c :: nat) \<le> 57) s)"

definition lastvalue_check :: "pyval option \<Rightarrow> error option" where
  "lastvalue_check lv =
     (case lv of
        None \<Rightarrow> None
      | Some (PyStr s) \<Rightarrow>
          if isdigit (filter (\<lambda>c. c \<noteq> CHR ''.'') s) then
            (if 2 \<le> length (filter (\<lambda>c. c = CHR ''.'') s) then Some ValueError else Some IndexError)
          else None
      | Some _ \<Rightarrow> Some AttributeError)"

definition Channel_init :: "confdata \<Rightarrow> pyval option \<Rightarrow> soup \<Rightarrow> nat \<Rightarrow> error + channel \<times> nat" where
  "Channel_init conf sensorid channelsoup n =
     (let a = set_scalars (children channelsoup) init_attrs;
          a = a(''id'' := a ''objid'')
      in case lastvalue_check (a ''lastvalue'') of
           Some err \<Rightarrow> Inl err
         | None \<Rightarrow> Inr (new_base conf n (a(''type'' \<mapsto> PyStr ''Channel'')), Suc n))"

definition Channel_refresh :: "channel \<Rightarrow> soup \<Rightarrow> channel" where
  "Channel_refresh self channelsoup =
     (let a = set_scalars (children channelsoup) (attrs self)
      in self\<lparr>attrs := a(''id'' := a ''objid'')\<rparr>)"


definition Channel_delete :: "channel \<Rightarrow> bool \<Rightarrow> string" where
  "Channel_delete self confirm = ''You cannot delete a channel''"

subsection \<open>Sensor\<close>

record sensor = baseconfig +
  channels :: "channel list"

definition sensor_of :: "baseconfig \<Rightarrow> channel list \<Rightarrow> sensor" where
  "sensor_of b chs =
     \<lparr> verify = verify b, confdata = confdata b, base_url = base_url b,
       base_url_no_api = base_url_no_api b, url_auth = url_auth b, oid = oid b, attrs = attrs b,
       channels = chs \<rparr>"

text \<open>
  \<open>Sensor.__init__\<close>: \<open>type = "Sensor"\<close> is set before \<open>BaseConfig.__init__\<close> and lost
  to it; \<open>deviceid\<close> stays.
\<close>

definition Sensor_init :: "confdata \<Rightarrow> pyval option \<Rightarrow> soup \<Rightarrow> nat \<Rightarrow> sensor \<times> nat" where
  "Sensor_init conf deviceid sensorsoup n =
     (let a = set_scalars (children sensorsoup) (init_attrs(''deviceid'' := deviceid))
      in (sensor_of (new_base conf n (a(''attributes'' \<mapsto> PyDict (soup_attrs sensorsoup)))) [], Suc n))"

fun append_channels :: "confdata \<Rightarrow> pyval option \<Rightarrow> soup list \<Rightarrow> channel list \<Rightarrow> nat
    \<Rightarrow> error option \<times> channel list \<times> nat" where
  "append_channels conf sid [] chs n = (None, chs, n)"
| "append_channels conf sid (child # items) chs n =
     (case Channel_init conf sid child n of
        Inl err \<Rightarrow> (Some err, chs, n)
      | Inr (c, n') \<Rightarrow> append_channels conf sid items (chs @ [c]) n')"

text \<open>
  \<open>for achannel in self.channels: if achannel.objid == child.find("objid").string:
  achannel.refresh(child)\<close>, with the channels as they are when the loop stops.
\<close>

fun refresh_channels :: "soup \<Rightarrow> channel list \<Rightarrow> error option \<times> channel list" where
  "refresh_channels child [] = (None, [])"
| "refresh_channels child (achannel # rest) =
     (case find_string child ''objid'' of
        Inl err \<Rightarrow> (Some err, achannel # rest)
      | Inr objid \<Rightarrow>
          (let achannel' = (if attrs achannel ''objid'' = objid then Channel_refresh achannel child
                            else achannel);
               (r, rest') = refresh_channels child rest
           in (r, achannel' # rest')))"

fun update_channels :: "soup list \<Rightarrow> channel list \<Rightarrow> error option \<times> channel list" where
  "update_channels [] chs = (None, chs)"
| "update_channels (child # items) chs =
     (case refresh_channels child chs of
        (Some err, chs') \<Rightarrow> (Some err, chs')
      | (None, chs') \<Rightarrow> update_channels items chs')"

definition channel_url :: "'a baseconfig_scheme \<Rightarrow> string" where
  "channel_url self =
     ''table.xml?content=channels&output=xml&columns=name,lastvalue_,objid&id='' @ py_str (attrs self ''id'')"

text \<open>
  \<open>Sensor.get_channels\<close> and \<open>Sensor.refresh\<close> return the sensor as the call leaves it,
  also when it raises (the first component).
\<close>

definition Sensor_get_channels :: "env \<Rightarrow> sensor \<Rightarrow> nat \<Rightarrow> error option \<times> sensor \<times> nat" where
  "Sensor_get_channels e self n =
     (case get_request e self (channel_url self) True of
        Inl err \<Rightarrow> (Some err, self, n)
      | Inr req \<Rightarrow>
          (case response_text req of
             Inl err \<Rightarrow> (Some err, self, n)
           | Inr txt \<Rightarrow>
               (let items = find_all (BeautifulSoup e txt) ''item''
                in if channels self = [] then
                     (case append_channels (confdata self) (attrs self ''id'') items [] n of
                        (r, chs, n') \<Rightarrow> (r, self\<lparr>channels := chs\<rparr>, n'))
                   else
                     (case update_channels items (channels self) of
                        (r, chs) \<Rightarrow> (r, self\<lparr>channels := chs\<rparr>, n)))))"

text \<open>\<open>soup.sensortree.nodes.<kind>\<close> of a tree that \<open>get_tree\<close> returned.\<close>

definition tree_node :: "soup \<Rightarrow> string \<Rightarrow> error + soup option" where
  "tree_node treesoup kind =
     (case tree_nodes treesoup of
        Inl err \<Rightarrow> Inl err
      | Inr None \<Rightarrow> Inl AttributeError
      | Inr (Some nodes) \<Rightarrow> Inr (soup_find nodes kind))"

definition fetch_node :: "env \<Rightarrow> 'a baseconfig_scheme \<Rightarrow> string \<Rightarrow> error + soup option" where
  "fetch_node e self kind =
     (case get_tree e self (attrs self ''id'') of
        Inl err \<Rightarrow> Inl err
      | Inr treesoup \<Rightarrow> tree_node treesoup kind)"

definition Sensor_refresh :: "env \<Rightarrow> sensor \<Rightarrow> soup option \<Rightarrow> nat \<Rightarrow> error option \<times> sensor \<times> nat" where
  "Sensor_refresh e self refreshsoup n =
     (case (case refreshsoup of Some s \<Rightarrow> Inr (Some s) | None \<Rightarrow> fetch_node e self ''sensor'') of
        Inl err \<Rightarrow> (Some err, self, n)
      | Inr None \<Rightarrow> (Some AttributeError, self, n)
      | Inr (Some (NavigableString s)) \<Rightarrow> (Some AttributeError, self, n)
      | Inr (Some (Tag nm a cs)) \<Rightarrow>
          (let self = self\<lparr>attrs := (set_scalars cs (attrs self))(''attributes'' \<mapsto> PyDict a)\<rparr>
           in if channels self \<noteq> [] then Sensor_get_channels e self n else (None, self, n)))"

subsection \<open>Device\<close>

text \<open>
  The collections hold references. The local collection (\<open>sensors\<close>) is the list of the
  objects themselves; a registry (\<open>allsensors\<close>) and the status index
  (\<open>sensors_by_status\<close>) hold the identities of the same objects. \<open>BaseConfig.__init__\<close>
  gives every object registries of its own (\<open>self.allsensors = []\<close>), which hide the class
  attributes of \<open>GlobalArrays\<close>.
\<close>

record device = baseconfig +
  sensors :: "sensor list"
  allsensors :: "nat list"
  sensors_by_status :: "pyval option \<rightharpoonup> nat list"

definition device_of :: "baseconfig \<Rightarrow> device" where
  "device_of b =
     \<lparr> verify = verify b, confdata = confdata b, base_url = base_url b,
       base_url_no_api = base_url_no_api b, url_auth = url_auth b, oid = oid b, attrs = attrs b,
       sensors = [], allsensors = [], sensors_by_status = Map.empty \<rparr>"

fun Device_initialize :: "soup list \<Rightarrow> device \<Rightarrow> nat \<Rightarrow> device \<times> nat" where
  "Device_initialize [] self n = (self, n)"
| "Device_initialize (NavigableString s # cs) self n = Device_initialize cs self n"
| "Device_initialize (Tag nm a ccs # cs) self n =
     (if nm = ''sensor'' then
        (let (sensorobj, n') = Sensor_init (confdata self) (attrs self ''id'') (Tag nm a ccs) n
         in Device_initialize cs
              (self\<lparr>sensors := sensors self @ [sensorobj],
                    allsensors := allsensors self @ [oid sensorobj]\<rparr>) n')
      else Device_initialize cs
             (self\<lparr>attrs := (attrs self)(nm \<mapsto> PyStr (string_or_empty (Tag nm a ccs)))\<rparr>) n)"

fun bucket_sensors :: "sensor list \<Rightarrow> (pyval option \<rightharpoonup> nat list) \<Rightarrow> (pyval option \<rightharpoonup> nat list)" where
  "bucket_sensors [] m = m"
| "bucket_sensors (asensor # rest) m =
     bucket_sensors rest
       (case m (attrs asensor ''status'') of
          Some l \<Rightarrow> m(attrs asensor ''status'' \<mapsto> l @ [oid asensor])
        | None \<Rightarrow> m(attrs asensor ''status'' \<mapsto> [oid asensor]))"

definition empty_buckets :: "pyval option \<rightharpoonup> nat list" where
  "empty_buckets = [Some (PyStr ''Up'') \<mapsto> [], Some (PyStr ''Down'') \<mapsto> [],
                    Some (PyStr ''Warning'') \<mapsto> [], Some (PyStr ''Paused'') \<mapsto> []]"

definition Device_init :: "confdata \<Rightarrow> soup \<Rightarrow> nat \<Rightarrow> device \<times> nat" where
  "Device_init conf devicesoup n =
     (let (self, n') = Device_initialize (children devicesoup) (device_of (new_base conf n init_attrs)) (Suc n)
      in (self\<lparr>sensors_by_status := bucket_sensors (sensors self) empty_buckets,
               attrs := (attrs self)(''attributes'' \<mapsto> PyDict (soup_attrs devicesoup),
                                     ''type'' \<mapsto> PyStr ''Device'')\<rparr>, n'))"

text \<open>
  \<open>for asensor in self.sensors: if asensor.id == child.find("id").string:
  asensor.refresh(child)\<close>. An exception of a tree refresh ends the model's run with the
  exception alone.
\<close>

fun refresh_sensors :: "env \<Rightarrow> soup \<Rightarrow> sensor list \<Rightarrow> nat \<Rightarrow> error + sensor list \<times> nat" where
  "refresh_sensors e child [] n = Inr ([], n)"
| "refresh_sensors e child (asensor # rest) n =
     (case find_string child ''id'' of
        Inl err \<Rightarrow> Inl err
      | Inr cid \<Rightarrow>
          if attrs asensor ''id'' = cid then
            (case Sensor_refresh e asensor (Some child) n of
               (Some err, _, _) \<Rightarrow> Inl err
             | (None, asensor', n') \<Rightarrow>
                 (case refresh_sensors e child rest n' of
                    Inl err \<Rightarrow> Inl err
                  | Inr (rest', n'') \<Rightarrow> Inr (asensor' # rest', n'')))
          else
            (case refresh_sensors e child rest n of
               Inl err \<Rightarrow> Inl err
             | Inr (rest', n') \<Rightarrow> Inr (asensor # rest', n')))"

fun Device_refresh_loop :: "env \<Rightarrow> pyval option list \<Rightarrow> soup list \<Rightarrow> device \<Rightarrow> pyval option list \<Rightarrow> nat
    \<Rightarrow> error + device \<times> pyval option list \<times> nat" where
  "Device_refresh_loop e sensorids [] self newsensorids n = Inr (self, newsensorids, n)"
| "Device_refresh_loop e sensorids (NavigableString s # cs) self newsensorids n =
     Device_refresh_loop e sensorids cs self newsensorids n"
| "Device_refresh_loop e sensorids (Tag nm a ccs # cs) self newsensorids n =
     (if nm = ''sensor'' then
        (case find_string (Tag nm a ccs) ''id'' of
           Inl err \<Rightarrow> Inl err
         | Inr cid \<Rightarrow>
             if cid \<in> set sensorids then
               (case refresh_sensors e (Tag nm a ccs) (sensors self) n of
                  Inl err \<Rightarrow> Inl err
                | Inr (ss, n') \<Rightarrow>
                    Device_refresh_loop e sensorids cs (self\<lparr>sensors := ss\<rparr>) (newsensorids @ [cid]) n')
             else
               (let (sensorobj, n') = Sensor_init (confdata self) (attrs self ''id'') (Tag nm a ccs) n
                in Device_refresh_loop e sensorids cs
                     (self\<lparr>sensors := sensors self @ [sensorobj],
                           allsensors := allsensors self @ [oid sensorobj]\<rparr>)
                     (newsensorids @ [cid]) n'))
      else Device_refresh_loop e sensorids cs
             (self\<lparr>attrs := (attrs self)(nm \<mapsto> PyStr (string_or_empty (Tag nm a ccs)))\<rparr>)
             newsensorids n)"

text \<open>
  \<open>list.remove(x)\<close> compares by identity (no class defines \<open>__eq__\<close>): it removes the
  first entry that is the object and raises ValueError when there is none.
\<close>

fun remove_obj :: "nat \<Rightarrow> 'a baseconfig_scheme list \<Rightarrow> error + 'a baseconfig_scheme list" where
  "remove_obj x [] = Inl ValueError"
| "remove_obj x (y # ys) =
     (if oid y = x then Inr ys
      else (case remove_obj x ys of Inl err \<Rightarrow> Inl err | Inr ys' \<Rightarrow> Inr (y # ys')))"

definition remove_ref :: "nat \<Rightarrow> nat list \<Rightarrow> error + nat list" where
  "remove_ref x xs = (if x \<in> set xs then Inr (remove1 x xs) else Inl ValueError)"

text \<open>
  \<open>for a in coll: if a.id == idval: toremove = a\<close>: the variable keeps the last match,
  or what it held before (\<open>None\<close> while it is unbound).
\<close>

fun last_with_id :: "pyval option \<Rightarrow> 'a baseconfig_scheme list \<Rightarrow> nat option \<Rightarrow> nat option" where
  "last_with_id idval [] toremove = toremove"
| "last_with_id idval (a # rest) toremove =
     last_with_id idval rest (if attrs a ''id'' = idval then Some (oid a) else toremove)"

fun Device_remove_stale :: "pyval option list \<Rightarrow> pyval option list \<Rightarrow> device \<Rightarrow> nat option \<Rightarrow> error + device" where
  "Device_remove_stale [] newsensorids self sensortoremove = Inr self"
| "Device_remove_stale (idval # rest) newsensorids self sensortoremove =
     (if idval \<notin> set newsensorids then
        (case last_with_id idval (sensors self) sensortoremove of
           None \<Rightarrow> Inl UnboundLocalError
         | Some x \<Rightarrow>
             (case remove_obj x (sensors self) of
                Inl err \<Rightarrow> Inl err
              | Inr ss \<Rightarrow>
                  (case remove_ref x (allsensors self) of
                     Inl err \<Rightarrow> Inl err
                   | Inr al \<Rightarrow>
                       Device_remove_stale rest newsensorids
                         (self\<lparr>sensors := ss, allsensors := al\<rparr>) (Some x))))
      else Device_remove_stale rest newsensorids self sensortoremove)"

definition Device_refresh :: "env \<Rightarrow> device \<Rightarrow> soup option \<Rightarrow> nat \<Rightarrow> error + device \<times> nat" where
  "Device_refresh e self refreshsoup n =
     (case (case refreshsoup of Some s \<Rightarrow> Inr (Some s) | None \<Rightarrow> fetch_node e self ''device'') of
        Inl err \<Rightarrow> Inl err
      | Inr None \<Rightarrow> Inl AttributeError
      | Inr (Some (NavigableString s)) \<Rightarrow> Inl AttributeError
      | Inr (Some (Tag nm a cs)) \<Rightarrow>
          (let sensorids = map (\<lambda>asensor. attrs asensor ''id'') (sensors self)
           in case Device_refresh_loop e sensorids cs self [] n of
                Inl err \<Rightarrow> Inl err
              | Inr (self, newsensorids, n') \<Rightarrow>
                  (case Device_remove_stale sensorids newsensorids self None of
                     Inl err \<Rightarrow> Inl err
                   | Inr self \<Rightarrow>
                       Inr (self\<lparr>attrs := (attrs self)(''attributes'' \<mapsto> PyDict a)\<rparr>, n'))))"

subsection \<open>Group and Probe\<close>

text \<open>
  A Probe is a Group: the class attribute \<open>type = "Probe"\<close> is hidden by the instance
  attribute that \<open>BaseConfig.__init__\<close> and \<open>Group.initialize\<close> set.
\<close>

datatype group =
  Group (gbase: baseconfig) (groups: "group list") (devices: "device list")
        (allgroups: "nat list") (alldevices: "nat list")

definition group_finish_init :: "soup \<Rightarrow> group \<Rightarrow> group" where
  "group_finish_init groupsoup self =
     (case self of Group b gs ds ags ads \<Rightarrow>
        Group (b\<lparr>attrs := (attrs b)(''attributes'' \<mapsto> PyDict (soup_attrs groupsoup),
                                   ''type'' \<mapsto> PyStr ''Group'')\<rparr>) gs ds ags ads)"

fun Group_initialize :: "soup list \<Rightarrow> group \<Rightarrow> nat \<Rightarrow> group \<times> nat" where
  "Group_initialize [] self n = (self, n)"
| "Group_initialize (NavigableString s # cs) self n = Group_initialize cs self n"
| "Group_initialize (Tag nm a ccs # cs) (Group b gs ds ags ads) n =
     (if nm = ''device'' then
        (let (deviceobj, n') = Device_init (confdata b) (Tag nm a ccs) n
         in Group_initialize cs (Group b gs (ds @ [deviceobj]) ags (ads @ [oid deviceobj])) n')
      else if nm = ''group'' then
        (let (g, n') = Group_initialize ccs (Group (new_base (confdata b) n init_attrs) [] [] [] []) (Suc n);
             groupobj = group_finish_init (Tag nm a ccs) g
         in Group_initialize cs (Group b (gs @ [groupobj]) ds (ags @ [oid (gbase groupobj)]) ads) n')
      else Group_initialize cs
             (Group (b\<lparr>attrs := (attrs b)(nm \<mapsto> PyStr (string_or_empty (Tag nm a ccs)))\<rparr>) gs ds ags ads) n)"

definition Group_init :: "confdata \<Rightarrow> soup \<Rightarrow> nat \<Rightarrow> group \<times> nat" where
  "Group_init conf groupsoup n =
     (let (g, n') = Group_initialize (children groupsoup) (Group (new_base conf n init_attrs) [] [] [] []) (Suc n)
      in (group_finish_init groupsoup g, n'))"

fun refresh_devices :: "env \<Rightarrow> soup \<Rightarrow> device list \<Rightarrow> nat \<Rightarrow> error + device list \<times> nat" where
  "refresh_devices e child [] n = Inr ([], n)"
| "refresh_devices e child (adevice # rest) n =
     (case find_string child ''id'' of
        Inl err \<Rightarrow> Inl err
      | Inr cid \<Rightarrow>
          if attrs adevice ''id'' = cid then
            (case Device_refresh e adevice (Some child) n of
               Inl err \<Rightarrow> Inl err
             | Inr (adevice', n') \<Rightarrow>
                 (case refresh_devices e child rest n' of
                    Inl err \<Rightarrow> Inl err
                  | Inr (rest', n'') \<Rightarrow> Inr (adevice' # rest', n'')))
          else
            (case refresh_devices e child rest n of
               Inl err \<Rightarrow> Inl err
             | Inr (rest', n') \<Rightarrow> Inr (adevice # rest', n')))"

text \<open>The two removal loops at the end of \<open>Group.refresh\<close>.\<close>

fun remove_stale_devices :: "pyval option list \<Rightarrow> pyval option list \<Rightarrow> device list \<Rightarrow> nat list \<Rightarrow> nat option
    \<Rightarrow> error + device list \<times> nat list" where
  "remove_stale_devices [] newdeviceids ds ads devicetoremove = Inr (ds, ads)"
| "remove_stale_devices (idval # rest) newdeviceids ds ads devicetoremove =
     (if idval \<notin> set newdeviceids then
        (case last_with_id idval ds devicetoremove of
           None \<Rightarrow> Inl UnboundLocalError
         | Some x \<Rightarrow>
             (case remove_obj x ds of
                Inl err \<Rightarrow> Inl err
              | Inr ds' \<Rightarrow>
                  (case remove_ref x ads of
                     Inl err \<Rightarrow> Inl err
                   | Inr ads' \<Rightarrow> remove_stale_devices rest newdeviceids ds' ads' (Some x))))
      else remove_stale_devices rest newdeviceids ds ads devicetoremove)"

fun group_last_with_id :: "pyval option \<Rightarrow> group list \<Rightarrow> nat option \<Rightarrow> nat option" where
  "group_last_with_id idval [] toremove = toremove"
| "group_last_with_id idval (a # rest) toremove =
     group_last_with_id idval rest (if attrs (gbase a) ''id'' = idval then Some (oid (gbase a)) else toremove)"

fun group_remove_obj :: "nat \<Rightarrow> group list \<Rightarrow> error + group list" where
  "group_remove_obj x [] = Inl ValueError"
| "group_remove_obj x (y # ys) =
     (if oid (gbase y) = x then Inr ys
      else (case group_remove_obj x ys of Inl err \<Rightarrow> Inl err | Inr ys' \<Rightarrow> Inr (y # ys')))"

fun remove_stale_groups :: "pyval option list \<Rightarrow> pyval option list \<Rightarrow> group list \<Rightarrow> nat list \<Rightarrow> nat option
    \<Rightarrow> error + group list \<times> nat list" where
  "remove_stale_groups [] newgroupids gs ags grouptoremove = Inr (gs, ags)"
| "remove_stale_groups (idval # rest) newgroupids gs ags grouptoremove =
     (if idval \<notin> set newgroupids then
        (case group_last_with_id idval gs grouptoremove of
           None \<Rightarrow> Inl UnboundLocalError
         | Some x \<Rightarrow>
             (case group_remove_obj x gs of
                Inl err \<Rightarrow> Inl err
              | Inr gs' \<Rightarrow>
                  (case remove_ref x ags of
                     Inl err \<Rightarrow> Inl err
                   | Inr ags' \<Rightarrow> remove_stale_groups rest newgroupids gs' ags' (Some x))))
      else remove_stale_groups rest newgroupids gs ags grouptoremove)"

definition Group_refresh_finish :: "(string \<times> string) list \<Rightarrow> pyval option list \<Rightarrow> pyval option list
    \<Rightarrow> group \<Rightarrow> pyval option list \<Rightarrow> pyval option list \<Rightarrow> error + group" where
  "Group_refresh_finish a deviceids groupids self newdeviceids newgroupids =
     (case self of Group b gs ds ags ads \<Rightarrow>
        (case remove_stale_devices deviceids newdeviceids ds ads None of
           Inl err \<Rightarrow> Inl err
         | Inr (ds', ads') \<Rightarrow>
             (case remove_stale_groups groupids newgroupids gs ags None of
                Inl err \<Rightarrow> Inl err
              | Inr (gs', ags') \<Rightarrow>
                  Inr (Group (b\<lparr>attrs := (attrs b)(''attributes'' \<mapsto> PyDict a)\<rparr>) gs' ds' ags' ads'))))"

text \<open>
  \<open>Group.refresh\<close> on a fragment: \<open>Group_refresh_tag\<close> is the method's body for the tag
  \<open>groupsoup\<close> with attributes \<open>a\<close> and children \<open>cs\<close>; \<open>Group_refresh_loop\<close> is its
  loop over the children; \<open>refresh_groups\<close> is the inner loop
  \<open>for agroup in self.groups: if agroup.id == child.find("id").string: agroup.refresh(child)\<close>.
\<close>

fun Group_refresh_tag :: "env \<Rightarrow> group \<Rightarrow> (string \<times> string) list \<Rightarrow> soup list \<Rightarrow> nat \<Rightarrow> error + group \<times> nat"
and Group_refresh_loop :: "env \<Rightarrow> pyval option list \<Rightarrow> pyval option list \<Rightarrow> soup list \<Rightarrow> group
    \<Rightarrow> pyval option list \<Rightarrow> pyval option list \<Rightarrow> nat
    \<Rightarrow> error + group \<times> pyval option list \<times> pyval option list \<times> nat"
and refresh_groups :: "env \<Rightarrow> soup \<Rightarrow> group list \<Rightarrow> nat \<Rightarrow> error + group list \<times> nat" where
  "Group_refresh_tag e self a cs n =
     (let deviceids = map (\<lambda>adevice. attrs adevice ''id'') (devices self);
          groupids = map (\<lambda>agroup. attrs (gbase agroup) ''id'') (groups self)
      in case Group_refresh_loop e deviceids groupids cs self [] [] n of
           Inl err \<Rightarrow> Inl err
         | Inr (self', newdeviceids, newgroupids, n') \<Rightarrow>
             (case Group_refresh_finish a deviceids groupids self' newdeviceids newgroupids of
                Inl err \<Rightarrow> Inl err
              | Inr self'' \<Rightarrow> Inr (self'', n')))"
| "Group_refresh_loop e deviceids groupids [] self newdeviceids newgroupids n =
     Inr (self, newdeviceids, newgroupids, n)"
| "Group_refresh_loop e deviceids groupids (NavigableString s # cs) self newdeviceids newgroupids n =
     Group_refresh_loop e deviceids groupids cs self newdeviceids newgroupids n"
| "Group_refresh_loop e deviceids groupids (Tag nm a ccs # cs) (Group b gs ds ags ads) newdeviceids newgroupids n =
     (if nm = ''device'' then
        (case find_string (Tag nm a ccs) ''id'' of
           Inl err \<Rightarrow> Inl err
         | Inr cid \<Rightarrow>
             if cid \<in> set deviceids then
               (case refresh_devices e (Tag nm a ccs) ds n of
                  Inl err \<Rightarrow> Inl err
                | Inr (ds', n') \<Rightarrow>
                    Group_refresh_loop e deviceids groupids cs (Group b gs ds' ags ads)
                      (newdeviceids @ [cid]) newgroupids n')
             else
               (let (deviceobj, n') = Device_init (confdata b) (Tag nm a ccs) n
                in Group_refresh_loop e deviceids groupids cs
                     (Group b gs (ds @ [deviceobj]) ags (ads @ [oid deviceobj]))
                     (newdeviceids @ [cid]) newgroupids n'))
      else if nm = ''group'' then
        (case find_string (Tag nm a ccs) ''id'' of
           Inl err \<Rightarrow> Inl err
         | Inr cid \<Rightarrow>
             if cid \<in> set groupids then
               (case refresh_groups e (Tag nm a ccs) gs n of
                  Inl err \<Rightarrow> Inl err
                | Inr (gs', n') \<Rightarrow>
                    Group_refresh_loop e deviceids groupids cs (Group b gs' ds ags ads)
                      newdeviceids (newgroupids @ [cid]) n')
             else
               (let (groupobj, n') = Group_init (confdata b) (Tag nm a ccs) n
                in Group_refresh_loop e deviceids groupids cs
                     (Group b (gs @ [groupobj]) ds (ags @ [oid (gbase groupobj)]) ads)
                     newdeviceids (newgroupids @ [cid]) n'))
      else Group_refresh_loop e deviceids groupids cs
             (Group (b\<lparr>attrs := (attrs b)(nm \<mapsto> PyStr (string_or_empty (Tag nm a ccs)))\<rparr>) gs ds ags ads)
             newdeviceids newgroupids n)"
| "refresh_groups e child [] n = Inr ([], n)"
| "refresh_groups e (NavigableString s) (agroup # rest) n = Inl AttributeError"
| "refresh_groups e (Tag nm a ccs) (agroup # rest) n =
     (case find_string (Tag nm a ccs) ''id'' of
        Inl err \<Rightarrow> Inl err
      | Inr cid \<Rightarrow>
          if attrs (gbase agroup) ''id'' = cid then
            (case Group_refresh_tag e agroup a ccs n of
               Inl err \<Rightarrow> Inl err
             | Inr (agroup', n') \<Rightarrow>
                 (case refresh_groups e (Tag nm a ccs) rest n' of
                    Inl err \<Rightarrow> Inl err
                  | Inr (rest', n'') \<Rightarrow> Inr (agroup' # rest', n'')))
          else
            (case refresh_groups e (Tag nm a ccs) rest n of
               Inl err \<Rightarrow> Inl err
             | Inr (rest', n') \<Rightarrow> Inr (agroup # rest', n')))"

text \<open>
  \<open>Group.refresh(refreshsoup)\<close>: without a fragment the group's own tree is fetched, as
  a \<open>group\<close> or a \<open>probenode\<close> by \<open>self.type\<close>; with any other type \<open>groupsoup\<close>
  stays \<open>None\<close>.
\<close>

definition Group_refresh :: "env \<Rightarrow> group \<Rightarrow> soup option \<Rightarrow> nat \<Rightarrow> error + group \<times> nat" where
  "Group_refresh e self refreshsoup n =
     (case (case refreshsoup of
              Some s \<Rightarrow> Inr (Some s)
            | None \<Rightarrow>
                if attrs (gbase self) ''type'' = Some (PyStr ''Group'') then fetch_node e (gbase self) ''group''
                else if attrs (gbase self) ''type'' = Some (PyStr ''Probe'') then fetch_node e (gbase self) ''probenode''
                else Inr None) of
        Inl err \<Rightarrow> Inl err
      | Inr None \<Rightarrow> Inl AttributeError
      | Inr (Some (NavigableString s)) \<Rightarrow> Inl AttributeError
      | Inr (Some (Tag nm a cs)) \<Rightarrow> Group_refresh_tag e self a cs n)"

subsection \<open>PRTGApi, the root client\<close>

record prtgapi = baseconfig +
  probes :: "group list"
  top_groups :: "group list"
  top_devices :: "device list"
  allprobes :: "nat list"
  top_allgroups :: "nat list"
  top_alldevices :: "nat list"

definition prtgapi_of :: "baseconfig \<Rightarrow> prtgapi" where
  "prtgapi_of b =
     \<lparr> verify = verify b, confdata = confdata b, base_url = base_url b,
       base_url_no_api = base_url_no_api b, url_auth = url_auth b, oid = oid b, attrs = attrs b,
       probes = [], top_groups = [], top_devices = [],
       allprobes = [], top_allgroups = [], top_alldevices = [] \<rparr>"

text \<open>\<open>for childr in child.children\<close> of \<open>PRTGApi.initialize\<close>.\<close>

fun PRTGApi_initialize_inner :: "soup list \<Rightarrow> prtgapi \<Rightarrow> nat \<Rightarrow> prtgapi \<times> nat" where
  "PRTGApi_initialize_inner [] self n = (self, n)"
| "PRTGApi_initialize_inner (NavigableString s # cs) self n = PRTGApi_initialize_inner cs self n"
| "PRTGApi_initialize_inner (Tag nm a ccs # cs) self n =
     (if nm = ''probenode'' then
        (let (probeobj, n') = Group_init (confdata self) (Tag nm a ccs) n
         in PRTGApi_initialize_inner cs
              (self\<lparr>allprobes := allprobes self @ [oid (gbase probeobj)],
                    probes := probes self @ [probeobj]\<rparr>) n')
      else if nm = ''device'' then
        (let (deviceobj, n') = Device_init (confdata self) (Tag nm a ccs) n
         in PRTGApi_initialize_inner cs
              (self\<lparr>top_devices := top_devices self @ [deviceobj],
                    top_alldevices := top_alldevices self @ [oid deviceobj]\<rparr>) n')
      else if nm = ''group'' then
        (let (groupobj, n') = Group_init (confdata self) (Tag nm a ccs) n
         in PRTGApi_initialize_inner cs
              (self\<lparr>top_groups := top_groups self @ [groupobj],
                    top_allgroups := top_allgroups self @ [oid (gbase groupobj)]\<rparr>) n')
      else PRTGApi_initialize_inner cs
             (self\<lparr>attrs := (attrs self)(nm \<mapsto> PyStr (string_or_empty (Tag nm a ccs)))\<rparr>) n)"

text \<open>\<open>for child in self.treesoup.sensortree.nodes.children: if child.name is not None\<close>.\<close>

fun PRTGApi_initialize_outer :: "soup list \<Rightarrow> prtgapi \<Rightarrow> nat \<Rightarrow> prtgapi \<times> nat" where
  "PRTGApi_initialize_outer [] self n = (self, n)"
| "PRTGApi_initialize_outer (NavigableString s # cs) self n = PRTGApi_initialize_outer cs self n"
| "PRTGApi_initialize_outer (Tag nm a ccs # cs) self n =
     (let (self', n') = PRTGApi_initialize_inner ccs self n
      in PRTGApi_initialize_outer cs self' n')"

text \<open>
  \<open>PRTGApi.__init__\<close> for the root client: every attribute of \<open>BaseConfig.__init__\<close> is
  \<open>None\<close> (\<open>type\<close> among them), \<open>id\<close> is \<open>rootid\<close>, and \<open>initialize\<close> fetches the
  tree.
\<close>

definition PRTGApi_init :: "env \<Rightarrow> confdata \<Rightarrow> pyval option \<Rightarrow> nat \<Rightarrow> error + prtgapi \<times> nat" where
  "PRTGApi_init e conf rootid n =
     (let self = prtgapi_of (new_base conf n (Map.empty(''id'' := rootid)))
      in case get_tree e self (attrs self ''id'') of
           Inl err \<Rightarrow> Inl err
         | Inr treesoup \<Rightarrow>
             (case tree_nodes treesoup of
                Inl err \<Rightarrow> Inl err
              | Inr None \<Rightarrow> Inl AttributeError
              | Inr (Some nodes) \<Rightarrow> Inr (PRTGApi_initialize_outer (children nodes) self (Suc n))))"

fun PRTGApi_refresh_inner :: "env \<Rightarrow> pyval option list \<Rightarrow> pyval option list \<Rightarrow> pyval option list
    \<Rightarrow> soup list \<Rightarrow> prtgapi \<Rightarrow> pyval option list \<Rightarrow> pyval option list \<Rightarrow> pyval option list \<Rightarrow> nat
    \<Rightarrow> error + prtgapi \<times> pyval option list \<times> pyval option list \<times> pyval option list \<times> nat" where
  "PRTGApi_refresh_inner e probeids groupids deviceids [] self newprobeids newgroupids newdeviceids n =
     Inr (self, newprobeids, newgroupids, newdeviceids, n)"
| "PRTGApi_refresh_inner e probeids groupids deviceids (NavigableString s # cs) self
       newprobeids newgroupids newdeviceids n =
     PRTGApi_refresh_inner e probeids groupids deviceids cs self newprobeids newgroupids newdeviceids n"
| "PRTGApi_refresh_inner e probeids groupids deviceids (Tag nm a ccs # cs) self
       newprobeids newgroupids newdeviceids n =
     (if nm = ''probenode'' then
        (case find_string (Tag nm a ccs) ''id'' of
           Inl err \<Rightarrow> Inl err
         | Inr cid \<Rightarrow>
             if cid \<in> set probeids then
               (case refresh_groups e (Tag nm a ccs) (probes self) n of
                  Inl err \<Rightarrow> Inl err
                | Inr (ps, n') \<Rightarrow>
                    PRTGApi_refresh_inner e probeids groupids deviceids cs (self\<lparr>probes := ps\<rparr>)
                      (newprobeids @ [cid]) newgroupids newdeviceids n')
             else
               (let (probeobj, n') = Group_init (confdata self) (Tag nm a ccs) n
                in PRTGApi_refresh_inner e probeids groupids deviceids cs
                     (self\<lparr>probes := probes self @ [probeobj],
                           allprobes := allprobes self @ [oid (gbase probeobj)]\<rparr>)
                     (newprobeids @ [cid]) newgroupids newdeviceids n'))
      else if nm = ''group'' then
        (case find_string (Tag nm a ccs) ''id'' of
           Inl err \<Rightarrow> Inl err
         | Inr cid \<Rightarrow>
             if cid \<in> set groupids then
               (case refresh_groups e (Tag nm a ccs) (top_groups self) n of
                  Inl err \<Rightarrow> Inl err
                | Inr (gs, n') \<Rightarrow>
                    PRTGApi_refresh_inner e probeids groupids deviceids cs (self\<lparr>top_groups := gs\<rparr>)
                      newprobeids (newgroupids @ [cid]) newdeviceids n')
             else
               (let (groupobj, n') = Group_init (confdata self) (Tag nm a ccs) n
                in PRTGApi_refresh_inner e probeids groupids deviceids cs
                     (self\<lparr>top_allgroups := top_allgroups self @ [oid (gbase groupobj)],
                           top_groups := top_groups self @ [groupobj]\<rparr>)
                     newprobeids (newgroupids @ [cid]) newdeviceids n'))
      else if nm = ''device'' then
        (case find_string (Tag nm a ccs) ''id'' of
           Inl err \<Rightarrow> Inl err
         | Inr cid \<Rightarrow>
             if cid \<in> set deviceids then
               (case refresh_devices e (Tag nm a ccs) (top_devices self) n of
                  Inl err \<Rightarrow> Inl err
                | Inr (ds, n') \<Rightarrow>
                    PRTGApi_refresh_inner e probeids groupids deviceids cs (self\<lparr>top_devices := ds\<rparr>)
                      newprobeids newgroupids (newdeviceids @ [cid]) n')
             else
               (let (deviceobj, n') = Device_init (confdata self) (Tag nm a ccs) n
                in PRTGApi_refresh_inner e probeids groupids deviceids cs
                     (self\<lparr>top_alldevices := top_alldevices self @ [oid deviceobj],
                           top_devices := top_devices self @ [deviceobj]\<rparr>)
                     newprobeids newgroupids (newdeviceids @ [cid]) n'))
      else PRTGApi_refresh_inner e probeids groupids deviceids cs
             (self\<lparr>attrs := (attrs self)(nm \<mapsto> PyStr (string_or_empty (Tag nm a ccs)))\<rparr>)
             newprobeids newgroupids newdeviceids n)"

fun PRTGApi_refresh_outer :: "env \<Rightarrow> pyval option list \<Rightarrow> pyval option list \<Rightarrow> pyval option list
    \<Rightarrow> soup list \<Rightarrow> prtgapi \<Rightarrow> pyval option list \<Rightarrow> pyval option list \<Rightarrow> pyval option list \<Rightarrow> nat
    \<Rightarrow> error + prtgapi \<times> pyval option list \<times> pyval option list \<times> pyval option list \<times> nat" where
  "PRTGApi_refresh_outer e probeids groupids deviceids [] self newprobeids newgroupids newdeviceids n =
     Inr (self, newprobeids, newgroupids, newdeviceids, n)"
| "PRTGApi_refresh_outer e probeids groupids deviceids (NavigableString s # cs) self
       newprobeids newgroupids newdeviceids n =
     PRTGApi_refresh_outer e probeids groupids deviceids cs self newprobeids newgroupids newdeviceids n"
| "PRTGApi_refresh_outer e probeids groupids deviceids (Tag nm a ccs # cs) self
       newprobeids newgroupids newdeviceids n =
     (case PRTGApi_refresh_inner e probeids groupids deviceids ccs self
             newprobeids newgroupids newdeviceids n of
        Inl err \<Rightarrow> Inl err
      | Inr (self', newprobeids', newgroupids', newdeviceids', n') \<Rightarrow>
          PRTGApi_refresh_outer e probeids groupids deviceids cs self'
            newprobeids' newgroupids' newdeviceids' n')"

text \<open>
  The removal loops of \<open>PRTGApi.refresh\<close> remove from the list they iterate over. A
  Python list iterator is an index: \<open>i\<close> is the position the loop reads next, in the
  list as it is then.

  Probes and groups: \<open>self.allprobes.remove(aprobe); self.probes.remove(aprobe)\<close>.
\<close>

function remove_groups_iter :: "nat \<Rightarrow> pyval option \<Rightarrow> group list \<Rightarrow> nat list \<Rightarrow> error + group list \<times> nat list" where
  "remove_groups_iter i idval ps allps =
     (if i < length ps then
        (if attrs (gbase (ps ! i)) ''id'' = idval then
           (case remove_ref (oid (gbase (ps ! i))) allps of
              Inl err \<Rightarrow> Inl err
            | Inr allps' \<Rightarrow>
                (case group_remove_obj (oid (gbase (ps ! i))) ps of
                   Inl err \<Rightarrow> Inl err
                 | Inr ps' \<Rightarrow> remove_groups_iter (Suc i) idval ps' allps'))
         else remove_groups_iter (Suc i) idval ps allps)
      else Inr (ps, allps))"
  by pat_completeness auto
termination
proof -
  have len: "length ys' < length ys" if "group_remove_obj x ys = Inr ys'" for x ys ys'
    using that by (induction ys arbitrary: ys') (auto split: if_splits sum.splits)
  show ?thesis
    by (relation "measure (\<lambda>(i, idval, ps, allps). length ps - i)") (auto dest: len)
qed

fun remove_stale_top_groups :: "pyval option list \<Rightarrow> pyval option list \<Rightarrow> group list \<Rightarrow> nat list
    \<Rightarrow> error + group list \<times> nat list" where
  "remove_stale_top_groups [] newids ps allps = Inr (ps, allps)"
| "remove_stale_top_groups (idval # rest) newids ps allps =
     (if idval \<notin> set newids then
        (case remove_groups_iter 0 idval ps allps of
           Inl err \<Rightarrow> Inl err
         | Inr (ps', allps') \<Rightarrow> remove_stale_top_groups rest newids ps' allps')
      else remove_stale_top_groups rest newids ps allps)"

text \<open>Devices: \<open>self.devices.remove(adevice); self.devices.remove(adevice)\<close>.\<close>

function remove_devices_iter :: "nat \<Rightarrow> pyval option \<Rightarrow> device list \<Rightarrow> error + device list" where
  "remove_devices_iter i idval ds =
     (if i < length ds then
        (if attrs (ds ! i) ''id'' = idval then
           (case remove_obj (oid (ds ! i)) ds of
              Inl err \<Rightarrow> Inl err
            | Inr ds' \<Rightarrow>
                (case remove_obj (oid (ds ! i)) ds' of
                   Inl err \<Rightarrow> Inl err
                 | Inr ds'' \<Rightarrow> remove_devices_iter (Suc i) idval ds''))
         else remove_devices_iter (Suc i) idval ds)
      else Inr ds)"
  by pat_completeness auto
termination
proof -
  have len: "length ys' < length ys" if "remove_obj x ys = Inr ys'"
    for x and ys ys' :: "device list"
    using that by (induction ys arbitrary: ys') (auto split: if_splits sum.splits)
  show ?thesis
    by (relation "measure (\<lambda>(i, idval, ds). length ds - i)") (auto dest!: len)
qed

fun remove_stale_top_devices :: "pyval option list \<Rightarrow> pyval option list \<Rightarrow> device list \<Rightarrow> error + device list" where
  "remove_stale_top_devices [] newids ds = Inr ds"
| "remove_stale_top_devices (idval # rest) newids ds =
     (if idval \<notin> set newids then
        (case remove_devices_iter 0 idval ds of
           Inl err \<Rightarrow> Inl err
         | Inr ds' \<Rightarrow> remove_stale_top_devices rest newids ds')
      else remove_stale_top_devices rest newids ds)"

definition PRTGApi_refresh :: "env \<Rightarrow> prtgapi \<Rightarrow> soup option \<Rightarrow> nat \<Rightarrow> error + prtgapi \<times> nat" where
  "PRTGApi_refresh e self refreshsoup n =
     (case (case refreshsoup of Some s \<Rightarrow> Inr s | None \<Rightarrow> get_tree e self (attrs self ''id'')) of
        Inl err \<Rightarrow> Inl err
      | Inr treesoup \<Rightarrow>
          (let probeids = map (\<lambda>aprobe. attrs (gbase aprobe) ''id'') (probes self);
               groupids = map (\<lambda>agroup. attrs (gbase agroup) ''id'') (top_groups self);
               deviceids = map (\<lambda>adevice. attrs adevice ''id'') (top_devices self)
           in case tree_nodes treesoup of
                Inl err \<Rightarrow> Inl err
              | Inr None \<Rightarrow> Inl AttributeError
              | Inr (Some nodes) \<Rightarrow>
                  (case PRTGApi_refresh_outer e probeids groupids deviceids (children nodes) self [] [] [] n of
                     Inl err \<Rightarrow> Inl err
                   | Inr (self, newprobeids, newgroupids, newdeviceids, n') \<Rightarrow>
                       (case remove_stale_top_groups probeids newprobeids (probes self) (allprobes self) of
                          Inl err \<Rightarrow> Inl err
                        | Inr (ps, allps) \<Rightarrow>
                            (case remove_stale_top_groups groupids newgroupids (top_groups self) (top_allgroups self) of
                               Inl err \<Rightarrow> Inl err
                             | Inr (gs, allgs) \<Rightarrow>
                                 (case remove_stale_top_devices deviceids newdeviceids (top_devices self) of
                                    Inl err \<Rightarrow> Inl err
                                  | Inr ds \<Rightarrow>
                                      Inr (self\<lparr>probes := ps, allprobes := allps, top_groups := gs,
                                                top_allgroups := allgs, top_devices := ds\<rparr>, n')))))))"

subsection \<open>Method resolution\<close>





subsection \<open>PRTGHistoricData\<close>

text \<open>
  \<open>csv.reader\<close> gives the rows it could read and the exception that ended the reading,
  if one did; \<open>strptime\<close> gives the timestamp or its ValueError; \<open>strftime\<close> formats a
  date. A cell of the result is a timestamp or the raw string.
\<close>

datatype 'dt cell = Stamp 'dt | Raw string

record 'dt library =
  csv_reader :: "string list \<Rightarrow> string list list \<times> error option"
  strptime :: "string \<Rightarrow> string \<Rightarrow> error + 'dt"
  strftime :: "'dt \<Rightarrow> string \<Rightarrow> string"

text \<open>\<open>s.split(sep)\<close> for a separator of one character.\<close>

fun split :: "char \<Rightarrow> string \<Rightarrow> string list" where
  "split sep [] = [[]]"
| "split sep (x # xs) =
     (if x = sep then [] # split sep xs
      else (case split sep xs of w # ws \<Rightarrow> (x # w) # ws | [] \<Rightarrow> [[x]]))"

text \<open>\<open>s.index(sub)\<close>: the first position where \<open>sub\<close> starts, \<open>None\<close> for the ValueError.\<close>

fun str_index :: "string \<Rightarrow> string \<Rightarrow> nat option" where
  "str_index [] sub = (if sub = [] then Some 0 else None)"
| "str_index (x # xs) sub =
     (if take (length sub) (x # xs) = sub then Some 0 else map_option Suc (str_index xs sub))"

definition format_date :: "'dt library \<Rightarrow> 'dt \<Rightarrow> string" where
  "format_date L dateobj = strftime L dateobj ''%Y-%m-%d-%H-%M-%S''"

text \<open>\<open>if "-" in cell: cell = cell[: cell.index(" -")]\<close>.\<close>

definition strip_annotation :: "string \<Rightarrow> error + string" where
  "strip_annotation cell =
     (if CHR ''-'' \<in> set cell then
        (case str_index cell '' -'' of None \<Rightarrow> Inl ValueError | Some k \<Rightarrow> Inr (take k cell))
      else Inr cell)"

text \<open>\<open>for inde, cell in enumerate(row)\<close>: \<open>headers[inde]\<close> is an IndexError past the header.\<close>

fun add_cells :: "'dt library \<Rightarrow> string list \<Rightarrow> string list \<Rightarrow> (string \<rightharpoonup> 'dt cell list)
    \<Rightarrow> error + (string \<rightharpoonup> 'dt cell list)" where
  "add_cells L headers [] data = Inr data"
| "add_cells L [] (cell # row) data = Inl IndexError"
| "add_cells L (h # headers) (cell # row) data =
     (if h = ''Date Time'' then
        (case strip_annotation cell of
           Inl err \<Rightarrow> Inl err
         | Inr c \<Rightarrow>
             (case data h of
                None \<Rightarrow> Inl KeyError
              | Some col \<Rightarrow>
                  (case strptime L c ''%m/%d/%Y %I:%M:%S %p'' of
                     Inl err \<Rightarrow> Inl err
                   | Inr t \<Rightarrow> add_cells L headers row (data(h \<mapsto> col @ [Stamp t])))))
      else
        (case data h of
           None \<Rightarrow> Inl KeyError
         | Some col \<Rightarrow> add_cells L headers row (data(h \<mapsto> col @ [Raw cell]))))"

fun add_rows :: "'dt library \<Rightarrow> string list \<Rightarrow> string list list \<Rightarrow> (string \<rightharpoonup> 'dt cell list)
    \<Rightarrow> error + (string \<rightharpoonup> 'dt cell list)" where
  "add_rows L headers [] data = Inr data"
| "add_rows L headers (row # rows) data =
     (case add_cells L headers row data of
        Inl err \<Rightarrow> Inl err
      | Inr data' \<Rightarrow> add_rows L headers rows data')"

fun init_columns :: "string list \<Rightarrow> (string \<rightharpoonup> 'dt cell list) \<Rightarrow> (string \<rightharpoonup> 'dt cell list)" where
  "init_columns [] data = data"
| "init_columns (header # headers) data = init_columns headers (data(header \<mapsto> []))"

definition read_table :: "'dt library \<Rightarrow> string list \<Rightarrow> error + (string \<rightharpoonup> 'dt cell list)" where
  "read_table L csv_lines =
     (case csv_reader L csv_lines of
        ([], failure) \<Rightarrow> (case failure of Some err \<Rightarrow> Inl err | None \<Rightarrow> Inr Map.empty)
      | (headers # rows, failure) \<Rightarrow>
          (case add_rows L headers rows (init_columns headers Map.empty) of
             Inl err \<Rightarrow> Inl err
           | Inr data \<Rightarrow> (case failure of Some err \<Rightarrow> Inl err | None \<Rightarrow> Inr data)))"

definition historic_url :: "'dt library \<Rightarrow> pyval option \<Rightarrow> 'dt + string \<Rightarrow> 'dt + string \<Rightarrow> pyval option \<Rightarrow> string" where
  "historic_url L objid startdate enddate timeaverage =
     (let sdate = (case startdate of Inl d \<Rightarrow> format_date L d | Inr s \<Rightarrow> s);
          edate = (case enddate of Inl d \<Rightarrow> format_date L d | Inr s \<Rightarrow> s)
      in ''historicdata.csv?id='' @ py_str objid @ ''&avg='' @ py_str timeaverage
           @ ''&sdate='' @ sdate @ ''&edate='' @ edate)"

text \<open>\<open>(csv_raw.split("\n"))[:-2]\<close>.\<close>

definition csv_lines_of :: "string \<Rightarrow> string list" where
  "csv_lines_of csv_raw = (let ls = split (CHR 0x0A) csv_raw in take (length ls - 2) ls)"

definition get_historic_data :: "env \<Rightarrow> 'dt library \<Rightarrow> 'a connectionmethods_scheme \<Rightarrow> pyval option
    \<Rightarrow> 'dt + string \<Rightarrow> 'dt + string \<Rightarrow> pyval option \<Rightarrow> error + (string \<rightharpoonup> 'dt cell list)" where
  "get_historic_data e L self objid startdate enddate timeaverage =
     (case get_request e self (historic_url L objid startdate enddate timeaverage) True of
        Inl err \<Rightarrow> Inl err
      | Inr req \<Rightarrow>
          (case response_text req of
             Inl err \<Rightarrow> Inl err
           | Inr csv_raw \<Rightarrow> read_table L (csv_lines_of csv_raw)))"

subsection \<open>Stating the claims\<close>



text \<open>
  The items of the channel table that \<open>get_channels\<close> fetches for a sensor, and whether
  an objid is that of none of them (as \<open>child.find("objid").string\<close> reads it).
\<close>

definition channel_items :: "env \<Rightarrow> 'a baseconfig_scheme \<Rightarrow> soup list" where
  "channel_items e self =
     find_all (BeautifulSoup e (body (requests_get e (request_url self (channel_url self) True) (verify self)))) ''item''"

definition absent_from :: "pyval option \<Rightarrow> soup list \<Rightarrow> bool" where
  "absent_from objid items = list_all (\<lambda>child. find_string child ''objid'' \<noteq> Inr objid) items"

definition kept :: "soup list \<Rightarrow> channel \<Rightarrow> channel \<Rightarrow> bool" where
  "kept items c c' = (oid c' = oid c \<and> (absent_from (attrs c ''objid'') items \<longrightarrow> c' = c))"

text \<open>The four buckets that \<open>Device.initialize\<close> always makes.\<close>

definition named_buckets :: "pyval option set" where
  "named_buckets = {Some (PyStr ''Up''), Some (PyStr ''Down''), Some (PyStr ''Warning''), Some (PyStr ''Paused'')}"

text \<open>
  The table of \<open>get_historic_data\<close> in the spec's words: the raw cells under a header
  name, row after row; the cell without its suffix from the first \<open>" -"\<close> on; and what
  the value of a cell must be.
\<close>

definition column_cells :: "string list \<Rightarrow> string list list \<Rightarrow> string \<Rightarrow> string list" where
  "column_cells headers rows h =
     concat (map (\<lambda>row. map snd (filter (\<lambda>(h', c). h' = h) (zip headers row))) rows)"

definition strip_suffix :: "string \<Rightarrow> string" where
  "strip_suffix cell = (case str_index cell '' -'' of None \<Rightarrow> cell | Some k \<Rightarrow> take k cell)"

definition cell_ok :: "'dt library \<Rightarrow> string \<Rightarrow> string \<Rightarrow> 'dt cell \<Rightarrow> bool" where
  "cell_ok L h raw v =
     (if h = ''Date Time''
      then (case v of Stamp t \<Rightarrow> strptime L (strip_suffix raw) ''%m/%d/%Y %I:%M:%S %p'' = Inr t | Raw s \<Rightarrow> False)
      else v = Raw raw)"

subsection \<open>Example data\<close>

text \<open>
  A server that answers every request with the same status and whose body parses to the
  same document; a connection; and small documents and objects.
\<close>

definition conf0 :: confdata where
  "conf0 = (''prtg.example'', ''443'', ''admin'', ''0000'', ''https'', True)"

definition answer :: "int \<Rightarrow> soup \<Rightarrow> env" where
  "answer code doc = \<lparr> requests_get = (\<lambda>url vrfy. \<lparr> status_code = code, body = [] \<rparr>), BeautifulSoup = (\<lambda>txt. doc) \<rparr>"

definition leaf :: "string \<Rightarrow> string \<Rightarrow> soup" where
  "leaf nm txt = Tag nm [] [NavigableString txt]"

definition document :: "soup list \<Rightarrow> soup" where
  "document nodes = Tag ''[document]'' [] [Tag ''sensortree'' [] [Tag ''nodes'' [] nodes]]"

definition root_tree :: soup where
  "root_tree = document [Tag ''group'' [] [leaf ''name'' ''Root'', leaf ''id'' ''0'']]"


definition sensor0 :: sensor where
  "sensor0 = sensor_of (new_base conf0 3 (init_attrs(''id'' \<mapsto> PyStr ''2001'', ''name'' \<mapsto> PyStr ''Ping'',
        ''status'' \<mapsto> PyStr ''Up'', ''status_raw'' \<mapsto> PyStr ''3'', ''active'' \<mapsto> PyStr ''true''))) []"

definition property_reply :: "string \<Rightarrow> soup" where
  "property_reply txt = Tag ''[document]'' [] [Tag ''prtg'' [] [leaf ''version'' ''1'', leaf ''result'' txt]]"

definition ping_time :: channel where
  "ping_time = new_base conf0 7 (init_attrs(''name'' \<mapsto> PyStr ''Ping Time'', ''objid'' \<mapsto> PyStr ''0'',
       ''id'' \<mapsto> PyStr ''0'', ''lastvalue'' \<mapsto> PyStr ''12 msec'', ''type'' \<mapsto> PyStr ''Channel''))"

definition packet_loss :: channel where
  "packet_loss = new_base conf0 8 (init_attrs(''name'' \<mapsto> PyStr ''Packet Loss'', ''objid'' \<mapsto> PyStr ''1'',
       ''id'' \<mapsto> PyStr ''1'', ''lastvalue'' \<mapsto> PyStr ''0 %'', ''type'' \<mapsto> PyStr ''Channel''))"

definition sensor1 :: sensor where
  "sensor1 = sensor0\<lparr>channels := [ping_time, packet_loss]\<rparr>"

definition channels_reply :: soup where
  "channels_reply = Tag ''[document]'' [] [Tag ''channels'' []
     [Tag ''item'' [] [leaf ''name'' ''Ping Time'', leaf ''lastvalue'' ''15 msec'', leaf ''objid'' ''0'']]]"

definition device_tag :: "string \<Rightarrow> soup" where
  "device_tag ping_status =
     Tag ''device'' [(''id'', ''40'')]
       [leaf ''name'' ''web'', leaf ''id'' ''40'',
        Tag ''sensor'' [(''id'', ''2001'')] [leaf ''name'' ''Ping'', leaf ''id'' ''2001'', leaf ''status'' ping_status],
        Tag ''sensor'' [(''id'', ''2002'')] [leaf ''name'' ''Disk'', leaf ''id'' ''2002'', leaf ''status'' ''Unusual'']]"

definition group_tag :: "soup list \<Rightarrow> soup" where
  "group_tag kids = Tag ''group'' [(''id'', ''53'')] ([leaf ''name'' ''Servers'', leaf ''id'' ''53''] @ kids)"

text \<open>
  A server of CSV bodies, and stand-ins for the library: the rows are the lines split at
  the commas, and two timestamps are known.
\<close>

definition csv_server :: "string \<Rightarrow> env" where
  "csv_server txt = \<lparr> requests_get = (\<lambda>url vrfy. \<lparr> status_code = 200, body = txt \<rparr>),
                      BeautifulSoup = (\<lambda>t. NavigableString t) \<rparr>"

definition toy_library :: "nat library" where
  "toy_library =
     \<lparr> csv_reader = (\<lambda>ls. (map (split (CHR '','')) ls, None)),
       strptime = (\<lambda>s fmt. if fmt \<noteq> ''%m/%d/%Y %I:%M:%S %p'' then Inl ValueError
                            else if s = ''01/02/2020 10:00:00 AM'' then Inr 10
                            else if s = ''01/02/2020 11:00:00 AM'' then Inr 11
                            else Inl ValueError),
       strftime = (\<lambda>d fmt. []) \<rparr>"

definition csv_body :: string where
  "csv_body = join [CHR 0x0A]
     [''Date Time,Value'', ''01/02/2020 10:00:00 AM -0500,1 %'', ''01/02/2020 11:00:00 AM,2 %'', ''Sums (of 2 values),3 %'', []]"

declare remove_groups_iter.simps [simp del]
declare remove_devices_iter.simps [simp del]

section \<open>Properties\<close>

subsection \<open>Connection\<close>

lemma get_request_cases:
  "get_request e c u api =
     (if status_code (requests_get e (request_url c u api) (verify c)) = 200
        then Inr (Some (requests_get e (request_url c u api) (verify c)))
      else if status_code (requests_get e (request_url c u api) (verify c)) = 401
        then Inl (AuthenticationError ''PRTG authentication failed. Check credentials in config file'')
      else if status_code (requests_get e (request_url c u api) (verify c)) = 404
        then Inl (ResourceNotFound (''No resource at URL used: '' @ request_url c u api))
      else Inr None)"
  by (simp add: get_request_def Let_def)

text \<open>
  C5, as the code has it. \<open>get_request\<close> returns the response exactly when the status is
  200, raises AuthenticationError exactly when it is 401, raises ResourceNotFound exactly
  when it is 404, with the requested URL in the message, and for every other status it
  returns \<open>None\<close>: no result and no exception.
\<close>

theorem get_request_classifies:
  "(get_request e c u api = Inr (Some r)
      \<longleftrightarrow> status_code (requests_get e (request_url c u api) (verify c)) = 200
          \<and> r = requests_get e (request_url c u api) (verify c))
   \<and> ((\<exists>m. get_request e c u api = Inl (AuthenticationError m))
      \<longleftrightarrow> status_code (requests_get e (request_url c u api) (verify c)) = 401)
   \<and> ((\<exists>m. get_request e c u api = Inl (ResourceNotFound m))
      \<longleftrightarrow> status_code (requests_get e (request_url c u api) (verify c)) = 404)
   \<and> (get_request e c u api = Inl (ResourceNotFound (''No resource at URL used: '' @ request_url c u api))
      \<longleftrightarrow> status_code (requests_get e (request_url c u api) (verify c)) = 404)
   \<and> (get_request e c u api = Inr None
      \<longleftrightarrow> status_code (requests_get e (request_url c u api) (verify c)) \<notin> {200, 401, 404})"
  by (auto simp: get_request_cases)

theorem get_request_classifies_witness:
  "get_request (answer 404 (NavigableString [])) (unpack_config conf0) ''rename.htm?id=1'' True
     = Inl (ResourceNotFound ''No resource at URL used: https://prtg.example:443/api/rename.htm?id=1&username=admin&passhash=0000'')"
  using get_request_classifies [of "answer 404 (NavigableString [])" "unpack_config conf0" "''rename.htm?id=1''" True]
  by (simp add: answer_def conf0_def request_url_def)

text \<open>
  C5 as the claim states it fails: on status 500 nothing is raised, the call returns
  \<open>None\<close>.
\<close>

theorem get_request_other_status_counterexample:
  "get_request (answer 500 (NavigableString [])) (unpack_config conf0) ''table.xml?content=sensortree'' True = Inr None"
  by (simp add: get_request_def answer_def Let_def)

subsection \<open>Node operations\<close>

lemma request_url_truncate [simp]: "request_url (baseconfig.truncate r) u api = request_url r u api"
  by (simp add: request_url_def baseconfig.truncate_def)

lemma pause_url_truncate [simp]: "pause_url (baseconfig.truncate r) d m = pause_url r d m"
  by (simp add: pause_url_def baseconfig.truncate_def)

lemma verify_truncate [simp]: "verify (baseconfig.truncate r) = verify r"
  by (simp add: baseconfig.truncate_def)







lemma delete_rejects_type_Root:
  "attrs self ''type'' = Some (PyStr ''Root'') \<Longrightarrow>
   delete e stdin self confirm = (Inr (Some ''You cannot delete the root object.''), [], stdin)"
  by (simp add: delete_def)

text \<open>
  C6 on the code. The root client that \<open>PRTGApi.__init__\<close> builds from the tree of the
  root group (name "Root", id 0) has \<open>type = None\<close>: nothing sets it to "Root". With
  \<open>confirm = False\<close>, \<open>delete\<close> on it requests \<open>deleteobject.htm?id=0&approve=1\<close> and
  returns \<open>None\<close>.
\<close>

theorem root_client_delete_requests:
  "(case PRTGApi_init (answer 200 root_tree) conf0 (Some (PyInt 0)) 0 of
      Inl err \<Rightarrow> False
    | Inr (root, n) \<Rightarrow>
        attrs root ''type'' = None
        \<and> attrs root ''name'' = Some (PyStr ''Root'')
        \<and> attrs root ''id'' = Some (PyStr ''0'')
        \<and> delete (answer 200 root_tree) [] root False
            = (Inr None,
               [''https://prtg.example:443/api/deleteobject.htm?id=0&approve=1&username=admin&passhash=0000''],
               []))"
  by (simp add: PRTGApi_init_def get_tree_def get_request_def answer_def root_tree_def document_def leaf_def
      conf0_def new_base_def prtgapi_of_def tree_nodes_def soup_find_def find_all_def response_text_def Let_def
      delete_def request_url_def string_or_empty_def)

text \<open>
  C8. When the request of \<open>get_property(name)\<close> is answered 200 and the body has a
  \<open>result\<close> tag: if its text is "(Property not found)" the call raises ResourceNotFound
  and the object is as it was; otherwise the text is stored under the attribute \<open>name\<close>
  and returned.
\<close>

theorem get_property_result:
  assumes "status_code (requests_get e (request_url self (getprop_url self nm) True) (verify self)) = 200"
    and "soup_find (BeautifulSoup e (body (requests_get e (request_url self (getprop_url self nm) True) (verify self)))) ''result'' = Some r"
  shows "get_property e self nm =
           (if get_text r = ''(Property not found)''
            then (self, Inl (ResourceNotFound (''No object property of name: '' @ nm)))
            else (self\<lparr>attrs := (attrs self)(nm \<mapsto> PyStr (get_text r))\<rparr>, Inr (get_text r)))"
  using assms by (simp add: get_property_def get_request_cases response_text_def)

theorem get_property_result_witness:
  "get_property (answer 200 (property_reply ''(Property not found)'')) sensor0 ''nosuch''
     = (sensor0, Inl (ResourceNotFound ''No object property of name: nosuch''))
   \<and> get_property (answer 200 (property_reply ''60'')) sensor0 ''interval''
     = (sensor0\<lparr>attrs := (attrs sensor0)(''interval'' \<mapsto> PyStr ''60'')\<rparr>, Inr ''60'')"
  using get_property_result [of "answer 200 (property_reply ''(Property not found)'')" sensor0 "''nosuch''"
        "leaf ''result'' ''(Property not found)''"]
    get_property_result [of "answer 200 (property_reply ''60'')" sensor0 "''interval''" "leaf ''result'' ''60''"]
  by (simp add: answer_def soup_find_def find_all_def leaf_def property_reply_def)

text \<open>
  C10. A \<open>set_property(name, value)\<close> that does not raise sets the attribute \<open>name\<close> of
  the object (its display name) to \<open>value\<close>, whatever property was set, and changes no
  other attribute; so does \<open>set_interval(seconds)\<close>, with the interval. The call does not
  raise when the status is neither 401 nor 404.
\<close>

theorem set_property_overwrites_name:
  "(snd (set_property e self nm v) = Inr ()
      \<longrightarrow> attrs (fst (set_property e self nm v)) = (attrs self)(''name'' := v))
   \<and> (snd (set_interval e self seconds) = Inr ()
      \<longrightarrow> attrs (fst (set_interval e self seconds)) = (attrs self)(''name'' := seconds))
   \<and> (status_code (requests_get e (request_url self (setprop_url self nm v) True) (verify self)) \<notin> {401, 404}
      \<longrightarrow> snd (set_property e self nm v) = Inr ())"
  by (auto simp: set_property_def set_interval_def get_request_cases split: sum.splits)

theorem set_property_overwrites_name_witness:
  "snd (set_interval (answer 200 (NavigableString [])) sensor0 (Some (PyInt 300))) = Inr ()
   \<and> attrs (fst (set_interval (answer 200 (NavigableString [])) sensor0 (Some (PyInt 300)))) ''name'' = Some (PyInt 300)
   \<and> attrs sensor0 ''name'' = Some (PyStr ''Ping'')"
  using set_property_overwrites_name [of "answer 200 (NavigableString [])" sensor0 "''interval''" "Some (PyInt 300)" "Some (PyInt 300)"]
  by (simp add: answer_def sensor0_def sensor_of_def new_base_def set_interval_def set_property_def get_request_def Let_def)

subsection \<open>Channels\<close>

lemma Channel_refresh_oid [simp]: "oid (Channel_refresh c child) = oid c"
  by (simp add: Channel_refresh_def Let_def)

lemma refresh_channels_kept:
  "refresh_channels child chs = (r, chs') \<Longrightarrow> list_all2 (kept [child]) chs chs'"
proof (induction chs arbitrary: r chs')
  case Nil
  then show ?case by simp
next
  case (Cons c chs)
  show ?case
  proof (cases "find_string child ''objid''")
    case (Inl err)
    with Cons.prems show ?thesis
      by (auto simp: kept_def list_all2_same list.rel_refl)
  next
    case (Inr objid)
    obtain r0 rest' where rc: "refresh_channels child chs = (r0, rest')"
      by (cases "refresh_channels child chs")
    from Cons.IH [OF rc] Cons.prems Inr rc show ?thesis
      by (auto simp: kept_def absent_from_def Let_def)
  qed
qed

lemma kept_trans:
  "kept [child] c c1 \<Longrightarrow> kept items c1 c' \<Longrightarrow> kept (child # items) c c'"
  by (auto simp: kept_def absent_from_def)

lemma update_channels_kept:
  "update_channels items chs = (r, chs') \<Longrightarrow> list_all2 (kept items) chs chs'"
proof (induction items arbitrary: chs r chs')
  case Nil
  then show ?case by (simp add: kept_def list.rel_refl)
next
  case (Cons child items)
  obtain r1 chs1 where rc: "refresh_channels child chs = (r1, chs1)"
    by (cases "refresh_channels child chs")
  have k1: "list_all2 (kept [child]) chs chs1"
    by (rule refresh_channels_kept [OF rc])
  show ?case
  proof (cases r1)
    case (Some err)
    with Cons.prems rc have "chs' = chs1" by simp
    with k1 show ?thesis
      by (auto simp: kept_def absent_from_def elim!: list_all2_mono)
  next
    case None
    with Cons.prems rc have "update_channels items chs1 = (r, chs')" by simp
    from Cons.IH [OF this] have k2: "list_all2 (kept items) chs1 chs'" .
    show ?thesis
      by (rule list_all2_trans [OF _ k1 k2]) (rule kept_trans)
  qed
qed

lemma Sensor_get_channels_kept:
  assumes "channels self \<noteq> []" and "Sensor_get_channels e self n = (r, self', n')"
  shows "list_all2 (kept (channel_items e self)) (channels self) (channels self')
         \<and> attrs self' = attrs self \<and> oid self' = oid self \<and> n' = n
         \<and> channel_items e self' = channel_items e self"
proof (cases "get_request e self (channel_url self) True")
  case (Inl err)
  with assms show ?thesis
    by (simp add: Sensor_get_channels_def kept_def list.rel_refl)
next
  case (Inr req)
  show ?thesis
  proof (cases req)
    case None
    with Inr assms show ?thesis
      by (simp add: Sensor_get_channels_def response_text_def kept_def list.rel_refl)
  next
    case (Some resp)
    with Inr have resp: "resp = requests_get e (request_url self (channel_url self) True) (verify self)"
      by (simp add: get_request_cases split: if_splits)
    obtain r0 chs where uc: "update_channels (channel_items e self) (channels self) = (r0, chs)"
      by (cases "update_channels (channel_items e self) (channels self)")
    from assms Inr Some resp uc have "self' = self\<lparr>channels := chs\<rparr>" and "n' = n"
      by (simp_all add: Sensor_get_channels_def response_text_def channel_items_def Let_def)
    with update_channels_kept [OF uc] show ?thesis
      by (simp add: channel_items_def channel_url_def request_url_def)
  qed
qed

lemma Sensor_refresh_kept:
  assumes "channels self \<noteq> []" and "Sensor_refresh e self refreshsoup n = (r, self', n')"
  shows "list_all2 (kept (channel_items e self')) (channels self) (channels self') \<and> oid self' = oid self \<and> n' = n"
proof -
  have same: "list_all2 (kept items) (channels self) (channels self)" for items
    by (simp add: kept_def list.rel_refl)
  show ?thesis
  proof (cases "case refreshsoup of Some s \<Rightarrow> Inr (Some s) | None \<Rightarrow> fetch_node e self ''sensor''")
    case (Inl err)
    with assms same show ?thesis by (simp add: Sensor_refresh_def)
  next
    case (Inr found)
    show ?thesis
    proof (cases found)
      case None
      with Inr assms same show ?thesis by (simp add: Sensor_refresh_def)
    next
      case (Some sensorsoup)
      show ?thesis
      proof (cases sensorsoup)
        case (NavigableString s)
        with Some Inr assms same show ?thesis by (simp add: Sensor_refresh_def)
      next
        case (Tag nm a cs)
        define self1 where "self1 = self\<lparr>attrs := (set_scalars cs (attrs self))(''attributes'' \<mapsto> PyDict a)\<rparr>"
        have ch1: "channels self1 = channels self" "oid self1 = oid self"
          by (simp_all add: self1_def)
        from assms Inr Some Tag have "Sensor_get_channels e self1 n = (r, self', n')"
          by (simp add: Sensor_refresh_def self1_def Let_def)
        from Sensor_get_channels_kept [OF _ this] ch1 assms(1) show ?thesis
          by simp
      qed
    qed
  qed
qed

text \<open>
  C3. For a sensor whose channels list is not empty, \<open>get_channels\<close> and \<open>refresh\<close>
  (whatever they return or raise) leave the list with the same objects in the same order,
  and every channel whose objid is that of no item of the channel table fetched is left
  as it was, all attributes included. (\<open>refresh\<close> fetches the table for the sensor as
  refreshed.)
\<close>

theorem channels_never_removed:
  assumes "channels self \<noteq> []"
  shows "(Sensor_get_channels e self n = (r, self', n') \<longrightarrow>
            map oid (channels self') = map oid (channels self)
            \<and> (\<forall>i < length (channels self).
                  absent_from (attrs (channels self ! i) ''objid'') (channel_items e self)
                  \<longrightarrow> channels self' ! i = channels self ! i))
       \<and> (Sensor_refresh e self refreshsoup n = (r, self', n') \<longrightarrow>
            map oid (channels self') = map oid (channels self)
            \<and> (\<forall>i < length (channels self).
                  absent_from (attrs (channels self ! i) ''objid'') (channel_items e self')
                  \<longrightarrow> channels self' ! i = channels self ! i))"
proof -
  have use: "map oid ys = map oid xs \<and> (\<forall>i < length xs. absent_from (attrs (xs ! i) ''objid'') items \<longrightarrow> ys ! i = xs ! i)"
    if "list_all2 (kept items) xs ys" for items and xs ys :: "channel list"
    using that by (induction rule: list_all2_induct) (auto simp: kept_def nth_Cons split: nat.splits)
  show ?thesis
    using Sensor_get_channels_kept [OF assms, of e n r self' n']
      Sensor_refresh_kept [OF assms, of e refreshsoup n r self' n'] use
    by blast
qed

theorem channels_never_removed_witness:
  "channels sensor1 \<noteq> []
   \<and> (case Sensor_get_channels (answer 200 channels_reply) sensor1 9 of
        (r, self', n') \<Rightarrow>
          r = None \<and> map oid (channels self') = [7, 8]
          \<and> attrs (channels self' ! 0) ''lastvalue'' = Some (PyStr ''15 msec'')
          \<and> channels self' ! 1 = packet_loss)"
proof -
  obtain r self' n' where run: "Sensor_get_channels (answer 200 channels_reply) sensor1 9 = (r, self', n')"
    by (cases "Sensor_get_channels (answer 200 channels_reply) sensor1 9")
  have ne: "channels sensor1 \<noteq> []"
    by (simp add: sensor1_def)
  have items: "channel_items (answer 200 channels_reply) sensor1
      = [Tag ''item'' [] [leaf ''name'' ''Ping Time'', leaf ''lastvalue'' ''15 msec'', leaf ''objid'' ''0'']]"
    by (simp add: channel_items_def answer_def channels_reply_def find_all_def leaf_def)
  have absent: "absent_from (attrs (channels sensor1 ! 1) ''objid'') (channel_items (answer 200 channels_reply) sensor1)"
    unfolding items by (simp add: absent_from_def sensor1_def packet_loss_def new_base_def find_string_def
        soup_find_def find_all_def leaf_def Let_def)
  from channels_never_removed [OF ne, of "answer 200 channels_reply" 9 r self' n' None] run absent
  have keep: "map oid (channels self') = map oid (channels sensor1)" "channels self' ! 1 = channels sensor1 ! 1"
    by (simp_all add: sensor1_def)
  have upd: "r = None \<and> attrs (channels self' ! 0) ''lastvalue'' = Some (PyStr ''15 msec'')"
    using run
    by (auto simp add: Sensor_get_channels_def get_request_def answer_def response_text_def Let_def
        sensor1_def channels_reply_def find_all_def leaf_def find_string_def soup_find_def
        ping_time_def packet_loss_def new_base_def Channel_refresh_def string_or_empty_def)
  from keep upd ne show ?thesis
    unfolding run by (simp add: sensor1_def ping_time_def packet_loss_def new_base_def Let_def)
qed

subsection \<open>The status index of a device\<close>

lemma filter_no_status:
  "k \<notin> (\<lambda>s. attrs s ''status'') ` set ss \<Longrightarrow> filter (\<lambda>s. attrs s ''status'' = k) ss = []"
  by (auto simp: filter_empty_conv)

lemma bucket_sensors_lookup:
  "bucket_sensors ss m k =
     (if k \<in> (\<lambda>s. attrs s ''status'') ` set ss
      then Some ((case m k of None \<Rightarrow> [] | Some l \<Rightarrow> l) @ map oid (filter (\<lambda>s. attrs s ''status'' = k) ss))
      else m k)"
  by (induction ss arbitrary: m) (auto simp: filter_empty_conv image_iff split: option.splits)

lemma Device_refresh_loop_index:
  "Device_refresh_loop e ids cs self new n = Inr (self', new', n') \<Longrightarrow>
   sensors_by_status self' = sensors_by_status self"
  by (induction e ids cs self new n rule: Device_refresh_loop.induct)
     (auto split: if_splits sum.splits prod.splits)

lemma Device_remove_stale_index:
  "Device_remove_stale ids new self tr = Inr self' \<Longrightarrow>
   sensors_by_status self' = sensors_by_status self"
  by (induction ids new self tr rule: Device_remove_stale.induct)
     (auto split: if_splits sum.splits option.splits)

lemma Device_refresh_index:
  "Device_refresh e self refreshsoup n = Inr (self', n') \<Longrightarrow>
   sensors_by_status self' = sensors_by_status self"
  by (auto simp: Device_refresh_def Let_def split: sum.splits option.splits soup.splits
      dest!: Device_refresh_loop_index Device_remove_stale_index)

lemma Device_init_index:
  "Device_init conf devicesoup n = (self, n') \<Longrightarrow>
   sensors_by_status self = bucket_sensors (sensors self) empty_buckets"
  by (auto simp: Device_init_def Let_def split: prod.splits)

text \<open>
  C7, as the code has it. \<open>Device.initialize\<close> builds the index once: a bucket for each
  of Up, Down, Warning and Paused and for every other status a sensor has, each holding
  exactly the device's sensors of that status, in the order of the collection. A
  \<open>refresh\<close> that returns leaves the index as it was: it is not recomputed.
\<close>

theorem status_index_built_once:
  "(Device_init conf devicesoup n = (self, n') \<longrightarrow>
      sensors_by_status self k =
        (if k \<in> named_buckets \<union> (\<lambda>s. attrs s ''status'') ` set (sensors self)
         then Some (map oid (filter (\<lambda>s. attrs s ''status'' = k) (sensors self)))
         else None))
   \<and> (Device_refresh e self refreshsoup m = Inr (self', m') \<longrightarrow>
      sensors_by_status self' = sensors_by_status self)"
  by (auto simp: Device_refresh_index bucket_sensors_lookup empty_buckets_def named_buckets_def
      filter_no_status dest!: Device_init_index split: option.splits)

theorem status_index_built_once_witness:
  "(case Device_init conf0 (device_tag ''Up'') 0 of
      (self, n) \<Rightarrow>
        map oid (sensors self) = [1, 2]
        \<and> sensors_by_status self (Some (PyStr ''Up'')) = Some [1]
        \<and> sensors_by_status self (Some (PyStr ''Down'')) = Some []
        \<and> sensors_by_status self (Some (PyStr ''Unusual'')) = Some [2]
        \<and> sensors_by_status self (Some (PyStr ''Unknown'')) = None
        \<and> (case Device_refresh (answer 200 (NavigableString [])) self (Some (device_tag ''Down'')) n of
              Inl err \<Rightarrow> False
            | Inr (self', n') \<Rightarrow> sensors_by_status self' = sensors_by_status self))"
proof -
  obtain self n where init: "Device_init conf0 (device_tag ''Up'') 0 = (self, n)"
    by (cases "Device_init conf0 (device_tag ''Up'') 0")
  have ss: "map oid (sensors self) = [1, 2]"
    "map (\<lambda>s. attrs s ''status'') (sensors self) = [Some (PyStr ''Up''), Some (PyStr ''Unusual'')]"
    using init
    by (auto simp add: Device_init_def device_tag_def leaf_def device_of_def new_base_def
      conf0_def Sensor_init_def sensor_of_def init_attrs_def Let_def string_or_empty_def)
  obtain self' n' where
    run: "Device_refresh (answer 200 (NavigableString [])) self (Some (device_tag ''Down'')) n = Inr (self', n')"
    using init
    by (auto simp add: Device_init_def Device_refresh_def device_tag_def leaf_def device_of_def new_base_def
      conf0_def Sensor_init_def sensor_of_def init_attrs_def empty_buckets_def Let_def
      find_string_def soup_find_def find_all_def Sensor_refresh_def string_or_empty_def remove_ref_def)
  from ss obtain s1 s2 where s12: "sensors self = [s1, s2]" "oid s1 = 1" "oid s2 = 2"
    "attrs s1 ''status'' = Some (PyStr ''Up'')" "attrs s2 ''status'' = Some (PyStr ''Unusual'')"
    by (cases "sensors self"; cases "tl (sensors self)") auto
  note idx = status_index_built_once [where conf = conf0 and devicesoup = "device_tag ''Up''" and n = 0
      and self = self and n' = n and e = "answer 200 (NavigableString [])"
      and refreshsoup = "Some (device_tag ''Down'')" and m = n and self' = self' and m' = n']
  from idx [where k = "Some (PyStr ''Up'')"] idx [where k = "Some (PyStr ''Down'')"]
    idx [where k = "Some (PyStr ''Unusual'')"] idx [where k = "Some (PyStr ''Unknown'')"] init run s12 ss(1)
  show ?thesis
    by (simp add: named_buckets_def)
qed

text \<open>
  C7 as the claim states it fails: a device built with a sensor that is Up and refreshed
  with a fragment where that sensor is Down still lists the sensor under Up, and the
  bucket Down is empty.
\<close>

theorem status_index_stale_counterexample:
  "(case Device_init conf0 (device_tag ''Up'') 0 of
      (self, n) \<Rightarrow>
        (case Device_refresh (answer 200 (NavigableString [])) self (Some (device_tag ''Down'')) n of
           Inl err \<Rightarrow> False
         | Inr (self', n') \<Rightarrow>
             map oid (sensors self') = [1, 2]
             \<and> map (\<lambda>s. attrs s ''status'') (sensors self') = [Some (PyStr ''Down''), Some (PyStr ''Unusual'')]
             \<and> sensors_by_status self' (Some (PyStr ''Down'')) = Some []
             \<and> sensors_by_status self' (Some (PyStr ''Up'')) = Some [1]))"
  by (simp add: Device_init_def Device_refresh_def device_tag_def leaf_def device_of_def new_base_def
      conf0_def Sensor_init_def sensor_of_def init_attrs_def empty_buckets_def Let_def
      find_string_def soup_find_def find_all_def Sensor_refresh_def string_or_empty_def remove_ref_def)

subsection \<open>Historic data\<close>

lemma str_index_dash: "str_index cell '' -'' = Some k \<Longrightarrow> CHR ''-'' \<in> set cell"
proof (induction cell arbitrary: k)
  case Nil
  then show ?case by simp
next
  case (Cons x xs)
  show ?case
  proof (cases "take 2 (x # xs) = '' -''")
    case True
    then show ?thesis by (cases xs) auto
  next
    case False
    with Cons show ?thesis by (auto split: if_splits)
  qed
qed

lemma strip_annotation_spec: "strip_annotation cell = Inr c \<Longrightarrow> c = strip_suffix cell"
  by (auto simp: strip_annotation_def strip_suffix_def split: if_splits option.splits dest: str_index_dash)

lemma add_cells_columns:
  "add_cells L hs row data = Inr data' \<Longrightarrow>
   \<exists>new. list_all2 (cell_ok L h) (map snd (filter (\<lambda>(h', c). h' = h) (zip hs row))) new
        \<and> data' h = map_option (\<lambda>col. col @ new) (data h)"
proof (induction L hs row data arbitrary: data' rule: add_cells.induct)
  case (1 L headers data)
  then show ?case by (cases "data h") auto
next
  case (2 L cell row data)
  then show ?case by simp
next
  case (3 L h0 headers cell row data)
  show ?case
  proof (cases "h0 = ''Date Time''")
    case True
    from "3.prems" True obtain c col t where
      c: "strip_annotation cell = Inr c" and col: "data h0 = Some col"
      and t: "strptime L c ''%m/%d/%Y %I:%M:%S %p'' = Inr t"
      and rest: "add_cells L headers row (data(h0 \<mapsto> col @ [Stamp t])) = Inr data'"
      by (auto split: sum.splits option.splits)
    from "3.IH"(1) [OF True c col t rest] obtain new where
      new: "list_all2 (cell_ok L h) (map snd (filter (\<lambda>(h', c). h' = h) (zip headers row))) new"
        "data' h = map_option (\<lambda>col. col @ new) ((data(h0 \<mapsto> col @ [Stamp t])) h)"
      by blast
    show ?thesis
    proof (cases "h = h0")
      case True
      have "cell_ok L h cell (Stamp t)"
        using t strip_annotation_spec [OF c] True \<open>h0 = ''Date Time''\<close> by (simp add: cell_ok_def)
      with new True col show ?thesis
        by (intro exI [of _ "Stamp t # new"]) simp
    next
      case False
      with new show ?thesis by (intro exI [of _ new]) auto
    qed
  next
    case False
    from "3.prems" False obtain col where col: "data h0 = Some col"
      and rest: "add_cells L headers row (data(h0 \<mapsto> col @ [Raw cell])) = Inr data'"
      by (auto split: sum.splits option.splits)
    from "3.IH"(2) [OF False col rest] obtain new where
      new: "list_all2 (cell_ok L h) (map snd (filter (\<lambda>(h', c). h' = h) (zip headers row))) new"
        "data' h = map_option (\<lambda>col. col @ new) ((data(h0 \<mapsto> col @ [Raw cell])) h)"
      by blast
    show ?thesis
    proof (cases "h = h0")
      case True
      have "cell_ok L h cell (Raw cell)"
        using True False by (simp add: cell_ok_def)
      with new True col show ?thesis
        by (intro exI [of _ "Raw cell # new"]) simp
    next
      case False
      with new show ?thesis by (intro exI [of _ new]) auto
    qed
  qed
qed

lemma add_rows_columns:
  "add_rows L hs rows data = Inr data' \<Longrightarrow>
   \<exists>new. list_all2 (cell_ok L h) (column_cells hs rows h) new
        \<and> data' h = map_option (\<lambda>col. col @ new) (data h)"
proof (induction rows arbitrary: data)
  case Nil
  then show ?case by (cases "data h") (auto simp: column_cells_def)
next
  case (Cons row rows)
  from Cons.prems obtain data1 where d1: "add_cells L hs row data = Inr data1"
    and rest: "add_rows L hs rows data1 = Inr data'"
    by (auto split: sum.splits)
  from add_cells_columns [OF d1, of h] obtain new1 where
    n1: "list_all2 (cell_ok L h) (map snd (filter (\<lambda>(h', c). h' = h) (zip hs row))) new1"
      "data1 h = map_option (\<lambda>col. col @ new1) (data h)" by blast
  from Cons.IH [OF rest] obtain new2 where
    n2: "list_all2 (cell_ok L h) (column_cells hs rows h) new2"
      "data' h = map_option (\<lambda>col. col @ new2) (data1 h)" by blast
  from n1 n2 show ?case
    by (intro exI [of _ "new1 @ new2"])
       (cases "data h", auto simp: column_cells_def intro: list_all2_appendI)
qed

lemma init_columns_lookup:
  "init_columns headers data h = (if h \<in> set headers then Some [] else data h)"
  by (induction headers arbitrary: data) auto

lemma read_table_columns:
  assumes "read_table L csv_lines = Inr data"
  shows "case fst (csv_reader L csv_lines) of
           [] \<Rightarrow> data = Map.empty
         | headers # rows \<Rightarrow>
             dom data = set headers
             \<and> list_all (\<lambda>h. case data h of None \<Rightarrow> False
                               | Some col \<Rightarrow> list_all2 (cell_ok L h) (column_cells headers rows h) col) headers"
proof (cases "csv_reader L csv_lines")
  case (Pair rws failure)
  show ?thesis
  proof (cases rws)
    case Nil
    with Pair assms show ?thesis
      by (auto simp: read_table_def split: option.splits)
  next
    case (Cons headers rows)
    with Pair assms have run: "add_rows L headers rows (init_columns headers Map.empty) = Inr data"
      by (auto simp: read_table_def split: sum.splits option.splits)
    have col: "\<exists>new. list_all2 (cell_ok L h) (column_cells headers rows h) new
        \<and> data h = (if h \<in> set headers then Some new else None)" for h
      using add_rows_columns [OF run, of h] by (auto simp: init_columns_lookup)
    have "(data h \<noteq> None) = (h \<in> set headers)" for h
      using col [of h] by (auto split: if_splits)
    then have "dom data = set headers"
      by (auto simp: dom_def)
    moreover have "list_all (\<lambda>h. case data h of None \<Rightarrow> False
                               | Some col \<Rightarrow> list_all2 (cell_ok L h) (column_cells headers rows h) col) headers"
      unfolding list_all_iff
    proof
      fix h assume "h \<in> set headers"
      with col [of h] show "case data h of None \<Rightarrow> False
                               | Some col \<Rightarrow> list_all2 (cell_ok L h) (column_cells headers rows h) col"
        by auto
    qed
    ultimately show ?thesis using Pair Cons by simp
  qed
qed

lemma split_no_sep: "sep \<notin> set x \<Longrightarrow> split sep x = [x]"
  by (induction x) auto

lemma split_append_sep: "sep \<notin> set x \<Longrightarrow> split sep (x @ sep # rest) = x # split sep rest"
  by (induction x) auto

lemma split_join:
  "ls \<noteq> [] \<Longrightarrow> list_all (\<lambda>l. sep \<notin> set l) ls \<Longrightarrow> split sep (join [sep] ls) = ls"
proof (induction ls)
  case Nil
  then show ?case by simp
next
  case (Cons x ls)
  then show ?case
    by (cases ls) (simp_all add: split_no_sep split_append_sep)
qed

lemma csv_lines_drop_last_two:
  "list_all (\<lambda>l. CHR 0x0A \<notin> set l) (ls @ [l1, l2]) \<Longrightarrow>
   csv_lines_of (join [CHR 0x0A] (ls @ [l1, l2])) = ls"
  by (simp add: csv_lines_of_def split_join Let_def)

text \<open>
  C9. When \<open>get_historic_data\<close> returns a table, the request was answered 200 and the
  rows are those that \<open>csv.reader\<close> reads from the lines of the body without the last
  two; with no row the table is empty; otherwise the first row is the header, the keys of
  the table are the header names, and under each name stand the values of the cells of
  that column in the order of the rows: for "Date Time" the timestamp that \<open>strptime\<close>
  reads with the format \<open>%m/%d/%Y %I:%M:%S %p\<close> from the cell cut before its first
  \<open>" -"\<close>, for any other name the raw string. The last conjunct says what dropping two
  lines is: of lines joined by newlines, all but the last two are left.
\<close>

theorem historic_data_columns:
  assumes "get_historic_data e L self objid startdate enddate timeaverage = Inr data"
  shows "status_code (requests_get e (request_url self (historic_url L objid startdate enddate timeaverage) True) (verify self)) = 200
     \<and> (case fst (csv_reader L (csv_lines_of (body
            (requests_get e (request_url self (historic_url L objid startdate enddate timeaverage) True) (verify self))))) of
           [] \<Rightarrow> data = Map.empty
         | headers # rows \<Rightarrow>
             dom data = set headers
             \<and> list_all (\<lambda>h. case data h of None \<Rightarrow> False
                               | Some col \<Rightarrow> list_all2 (cell_ok L h) (column_cells headers rows h) col) headers)
     \<and> (list_all (\<lambda>l. CHR 0x0A \<notin> set l) (ls @ [l1, l2])
          \<longrightarrow> csv_lines_of (join [CHR 0x0A] (ls @ [l1, l2])) = ls)"
proof -
  let ?resp = "requests_get e (request_url self (historic_url L objid startdate enddate timeaverage) True) (verify self)"
  from assms have ok: "status_code ?resp = 200"
    by (auto simp: get_historic_data_def get_request_cases response_text_def split: if_splits)
  with assms have "read_table L (csv_lines_of (body ?resp)) = Inr data"
    by (simp add: get_historic_data_def get_request_cases response_text_def)
  from read_table_columns [OF this] ok csv_lines_drop_last_two [of ls l1 l2] show ?thesis
    by blast
qed

lemma csv_run:
  "get_historic_data (csv_server csv_body) toy_library (unpack_config conf0) (Some (PyInt 2001))
         (Inr ''2020-01-02-00-00-00'') (Inr ''2020-01-03-00-00-00'') (Some (PyInt 0))
     = Inr (projr (get_historic_data (csv_server csv_body) toy_library (unpack_config conf0) (Some (PyInt 2001))
         (Inr ''2020-01-02-00-00-00'') (Inr ''2020-01-03-00-00-00'') (Some (PyInt 0))))"
  by (simp add: get_historic_data_def get_request_def csv_server_def csv_body_def toy_library_def
      response_text_def csv_lines_of_def read_table_def Let_def strip_annotation_def)

theorem historic_data_columns_witness:
  "(case get_historic_data (csv_server csv_body) toy_library (unpack_config conf0) (Some (PyInt 2001))
         (Inr ''2020-01-02-00-00-00'') (Inr ''2020-01-03-00-00-00'') (Some (PyInt 0)) of
      Inl err \<Rightarrow> False
    | Inr data \<Rightarrow>
        dom data = {''Date Time'', ''Value''}
        \<and> data ''Date Time'' = Some [Stamp 10, Stamp 11]
        \<and> data ''Value'' = Some [Raw ''1 %'', Raw ''2 %''])"
proof -
  let ?run = "get_historic_data (csv_server csv_body) toy_library (unpack_config conf0) (Some (PyInt 2001))
         (Inr ''2020-01-02-00-00-00'') (Inr ''2020-01-03-00-00-00'') (Some (PyInt 0))"
  have rows: "fst (csv_reader toy_library (csv_lines_of (body (requests_get (csv_server csv_body)
        (request_url (unpack_config conf0)
           (historic_url toy_library (Some (PyInt 2001)) (Inr ''2020-01-02-00-00-00'') (Inr ''2020-01-03-00-00-00'') (Some (PyInt 0))) True)
        (verify (unpack_config conf0))))))
      = [[''Date Time'', ''Value''], [''01/02/2020 10:00:00 AM -0500'', ''1 %''], [''01/02/2020 11:00:00 AM'', ''2 %'']]"
    by (simp add: csv_server_def csv_body_def toy_library_def csv_lines_of_def Let_def)
  from historic_data_columns [OF csv_run, of "[]" "[]" "[]"]
  have dom: "dom (projr ?run) = {''Date Time'', ''Value''}"
    unfolding rows by auto
  have vals: "projr ?run ''Date Time'' = Some [Stamp 10, Stamp 11]"
    "projr ?run ''Value'' = Some [Raw ''1 %'', Raw ''2 %'']"
    by (simp_all add: get_historic_data_def get_request_def csv_server_def csv_body_def toy_library_def
      response_text_def csv_lines_of_def read_table_def Let_def strip_annotation_def)
  show ?thesis
    by (subst csv_run) (simp add: dom vals)
qed

subsection \<open>Refreshing the tree\<close>

lemma group_refresh_removes_stale_device:
  "(case Group_init conf0 (group_tag [device_tag ''Up'']) 0 of
      (self, n) \<Rightarrow>
        map oid (devices self) = [1] \<and> alldevices self = [1]
        \<and> (case Group_refresh (answer 200 (NavigableString [])) self (Some (group_tag [])) n of
              Inl err \<Rightarrow> False
            | Inr (self', n') \<Rightarrow> devices self' = [] \<and> alldevices self' = []))"
  by (simp add: Group_init_def Group_refresh_def Group_refresh_finish_def group_finish_init_def
      group_tag_def device_tag_def leaf_def conf0_def new_base_def
      Let_def string_or_empty_def
      Device_init_def device_of_def Sensor_init_def sensor_of_def init_attrs_def empty_buckets_def
      remove_ref_def)

text \<open>
  C1 on the code. A root client built for the group 53, which holds the device 40
  directly, is refreshed with a tree in which the group has no device. The removal loop
  for devices calls \<open>self.devices.remove(adevice)\<close> twice (the loops for probes and
  groups remove from the registry and from the collection): the second call raises
  ValueError and the registry \<open>alldevices\<close> is never touched.
\<close>

theorem root_refresh_stale_device:
  "(case PRTGApi_init (answer 200 (document [group_tag [device_tag ''Up'']])) conf0 (Some (PyStr ''53'')) 0 of
      Inl err \<Rightarrow> False
    | Inr (root, n) \<Rightarrow>
        map (\<lambda>d. attrs d ''id'') (top_devices root) = [Some (PyStr ''40'')]
        \<and> map oid (top_devices root) = [1]
        \<and> top_alldevices root = [1]
        \<and> PRTGApi_refresh (answer 200 (document [group_tag []])) root (Some (document [group_tag []])) n
            = Inl ValueError)"
  by (simp add: PRTGApi_init_def PRTGApi_refresh_def get_tree_def get_request_def answer_def document_def
      group_tag_def device_tag_def leaf_def conf0_def new_base_def prtgapi_of_def tree_nodes_def
      soup_find_def find_all_def response_text_def Let_def string_or_empty_def
      Device_init_def device_of_def Sensor_init_def sensor_of_def init_attrs_def empty_buckets_def
      remove_devices_iter.simps remove_ref_def)

end
